theory Spec2Isabelle
  imports Complex_Main
begin

section \<open>JavaScript numbers\<close>

text \<open>
  A JavaScript Number is a finite double, one of the two infinities, or NaN.  Finite doubles
  are idealised as reals: rounding and overflow of finite results are not modelled.  Zero is
  not signed; the only divisions whose divisor can be zero divide by a measured width or
  height, which is never negative, so a zero divisor is read as \<open>+0\<close>.
\<close>

datatype jsnum = Fin real | PInf | NInf | NaN

fun js_neg :: "jsnum \<Rightarrow> jsnum" where
  "js_neg (Fin a) = Fin (- a)"
| "js_neg PInf = NInf"
| "js_neg NInf = PInf"
| "js_neg NaN = NaN"

fun js_add :: "jsnum \<Rightarrow> jsnum \<Rightarrow> jsnum" where
  "js_add (Fin a) (Fin b) = Fin (a + b)"
| "js_add (Fin a) PInf = PInf"
| "js_add (Fin a) NInf = NInf"
| "js_add PInf (Fin b) = PInf"
| "js_add PInf PInf = PInf"
| "js_add PInf NInf = NaN"
| "js_add NInf (Fin b) = NInf"
| "js_add NInf NInf = NInf"
| "js_add NInf PInf = NaN"
| "js_add NaN y = NaN"
| "js_add x NaN = NaN"

definition js_sub :: "jsnum \<Rightarrow> jsnum \<Rightarrow> jsnum" where
  "js_sub a b = js_add a (js_neg b)"

fun js_mul :: "jsnum \<Rightarrow> jsnum \<Rightarrow> jsnum" where
  "js_mul (Fin a) (Fin b) = Fin (a * b)"
| "js_mul (Fin a) PInf = (if a = 0 then NaN else if 0 < a then PInf else NInf)"
| "js_mul (Fin a) NInf = (if a = 0 then NaN else if 0 < a then NInf else PInf)"
| "js_mul PInf (Fin b) = (if b = 0 then NaN else if 0 < b then PInf else NInf)"
| "js_mul NInf (Fin b) = (if b = 0 then NaN else if 0 < b then NInf else PInf)"
| "js_mul PInf PInf = PInf"
| "js_mul PInf NInf = NInf"
| "js_mul NInf PInf = NInf"
| "js_mul NInf NInf = PInf"
| "js_mul NaN y = NaN"
| "js_mul x NaN = NaN"

fun js_div :: "jsnum \<Rightarrow> jsnum \<Rightarrow> jsnum" where
  "js_div (Fin a) (Fin b) =
     (if b = 0 then (if a = 0 then NaN else if 0 < a then PInf else NInf) else Fin (a / b))"
| "js_div (Fin a) PInf = Fin 0"
| "js_div (Fin a) NInf = Fin 0"
| "js_div PInf (Fin b) = (if 0 \<le> b then PInf else NInf)"
| "js_div NInf (Fin b) = (if 0 \<le> b then NInf else PInf)"
| "js_div PInf PInf = NaN"
| "js_div PInf NInf = NaN"
| "js_div NInf PInf = NaN"
| "js_div NInf NInf = NaN"
| "js_div NaN y = NaN"
| "js_div x NaN = NaN"

text \<open>The comparison \<open>a < b\<close>: false as soon as one side is NaN.\<close>

fun js_lt :: "jsnum \<Rightarrow> jsnum \<Rightarrow> bool" where
  "js_lt (Fin a) (Fin b) = (a < b)"
| "js_lt (Fin a) PInf = True"
| "js_lt NInf (Fin b) = True"
| "js_lt NInf PInf = True"
| "js_lt x y = False"

text \<open>\<open>Math.max\<close> and \<open>Math.min\<close> of two arguments: NaN as soon as one argument is NaN.\<close>

definition Math_max :: "jsnum \<Rightarrow> jsnum \<Rightarrow> jsnum" where
  "Math_max a b = (if a = NaN \<or> b = NaN then NaN else if js_lt a b then b else a)"

definition Math_min :: "jsnum \<Rightarrow> jsnum \<Rightarrow> jsnum" where
  "Math_min a b = (if a = NaN \<or> b = NaN then NaN else if js_lt b a then b else a)"

text \<open>\<^verbatim>\<open>function clamp(x, a, b) { return Math.max(a, Math.min(b, x)); }\<close>\<close>

definition clamp :: "jsnum \<Rightarrow> jsnum \<Rightarrow> jsnum \<Rightarrow> jsnum" where
  "clamp x a b = Math_max a (Math_min b x)"

text \<open>Truthiness of a number, as \<open>x || y\<close> tests it: zero and NaN are falsy.\<close>

definition num_or :: "jsnum \<Rightarrow> jsnum \<Rightarrow> jsnum" where
  "num_or a b = (if a = NaN \<or> a = Fin 0 then b else a)"

section \<open>Bone geometry\<close>

record point =
  pt_x :: jsnum
  pt_y :: jsnum

datatype side = Top | Bottom

record bone =
  xSpine :: jsnum
  ySpine :: jsnum
  xEdge :: jsnum
  yEdge :: jsnum
  bone_side :: side

definition pointOnBone :: "bone \<Rightarrow> jsnum \<Rightarrow> point" where
  "pointOnBone b t =
     \<lparr> pt_x = js_add (xSpine b) (js_mul t (js_sub (xEdge b) (xSpine b))),
       pt_y = js_add (ySpine b) (js_mul t (js_sub (yEdge b) (ySpine b))) \<rparr>"

text \<open>The squared length \<open>denom\<close> that \<open>projectT\<close> computes from the two end points.\<close>

definition denom :: "point \<Rightarrow> point \<Rightarrow> jsnum" where
  "denom a b =
     (let abx = js_sub (pt_x b) (pt_x a); aby = js_sub (pt_y b) (pt_y a)
      in js_add (js_mul abx abx) (js_mul aby aby))"

definition projectT :: "point \<Rightarrow> point \<Rightarrow> point \<Rightarrow> jsnum" where
  "projectT p a b =
     (let abx = js_sub (pt_x b) (pt_x a); aby = js_sub (pt_y b) (pt_y a);
          apx = js_sub (pt_x p) (pt_x a); apy = js_sub (pt_y p) (pt_y a)
      in if js_lt (denom a b) (Fin 0.000001) then Fin 0
         else js_div (js_add (js_mul apx abx) (js_mul apy aby)) (denom a b))"

text \<open>The two end points of a bone, as the drag handlers pass them to \<open>projectT\<close>.\<close>

definition spinePoint :: "bone \<Rightarrow> point" where
  "spinePoint b = \<lparr> pt_x = xSpine b, pt_y = ySpine b \<rparr>"

definition edgePoint :: "bone \<Rightarrow> point" where
  "edgePoint b = \<lparr> pt_x = xEdge b, pt_y = yEdge b \<rparr>"

definition finBone :: "real \<Rightarrow> real \<Rightarrow> real \<Rightarrow> real \<Rightarrow> side \<Rightarrow> bone" where
  "finBone ax ay ex ey s =
     \<lparr> xSpine = Fin ax, ySpine = Fin ay, xEdge = Fin ex, yEdge = Fin ey, bone_side = s \<rparr>"

section \<open>Values read from a JSON file\<close>

text \<open>
  What \<open>JSON.parse\<close> returns.  An object is the list of its members in the order of the
  text; a later member with the same key overrides an earlier one.
\<close>

datatype json =
  JNull | JBool bool | JNum jsnum | JStr string | JArr "json list" | JObj "(string \<times> json) list"

datatype js_error = SyntaxError | TypeError

text \<open>
  What the handlers take from outside the program: the built-in conversions between strings
  and numbers, and the values that the calls of \<open>uid()\<close> return during one handler, in the
  order of the calls (\<open>uid\<close> concatenates \<open>Math.random()\<close> and \<open>Date.now()\<close>).
\<close>

record env =
  StringToNumber :: "string \<Rightarrow> jsnum"
  NumberToString :: "jsnum \<Rightarrow> string"
  uid_at :: "nat \<Rightarrow> string"

definition bindE :: "'e + 'a \<Rightarrow> ('a \<Rightarrow> 'e + 'b) \<Rightarrow> 'e + 'b" where
  "bindE m f = (case m of Inl e \<Rightarrow> Inl e | Inr x \<Rightarrow> f x)"

fun mapE :: "('a \<Rightarrow> 'e + 'b) \<Rightarrow> 'a list \<Rightarrow> 'e + 'b list" where
  "mapE f [] = Inr []"
| "mapE f (x # xs) =
     (case f x of Inl e \<Rightarrow> Inl e
      | Inr y \<Rightarrow> (case mapE f xs of Inl e \<Rightarrow> Inl e | Inr ys \<Rightarrow> Inr (y # ys)))"

text \<open>
  The property read \<open>v.k\<close> on a value that is not \<open>null\<close>; \<open>None\<close> is \<open>undefined\<close>.  None of
  the names the program reads (\<open>categories\<close>, \<open>id\<close>, \<open>label\<close>, \<open>blocks\<close>, \<open>title\<close>,
  \<open>bullets\<close>, \<open>t\<close>, ...) is defined on a prototype, so only an object's own members count.
  Reading a property of \<open>null\<close> throws; the callers test for it.
\<close>

fun get_prop :: "json \<Rightarrow> string \<Rightarrow> json option" where
  "get_prop (JObj kvs) k = map_of (rev kvs) k"
| "get_prop v k = None"

fun truthy :: "json \<Rightarrow> bool" where
  "truthy JNull = False"
| "truthy (JBool b) = b"
| "truthy (JNum n) = (n \<noteq> NaN \<and> n \<noteq> Fin 0)"
| "truthy (JStr s) = (s \<noteq> [])"
| "truthy (JArr xs) = True"
| "truthy (JObj kvs) = True"

text \<open>\<open>a || b\<close> and \<open>a ?? b\<close> on the result of a property read.\<close>

fun or_else :: "json option \<Rightarrow> json \<Rightarrow> json" where
  "or_else None d = d"
| "or_else (Some v) d = (if truthy v then v else d)"

fun nullish_else :: "json option \<Rightarrow> json \<Rightarrow> json" where
  "nullish_else None d = d"
| "nullish_else (Some JNull) d = d"
| "nullish_else (Some v) d = v"

fun join_comma :: "string list \<Rightarrow> string" where
  "join_comma [] = []"
| "join_comma [s] = s"
| "join_comma (s # ss) = s @ '','' @ join_comma ss"

text \<open>
  \<open>String(v)\<close>, which is also the conversion the DOM applies to a value stored in an
  attribute or an input.  A parsed object has no callable member, so an object with a member
  named \<open>toString\<close> hides \<open>Object.prototype.toString\<close> and the conversion throws a TypeError.
  An array is joined with commas, \<open>null\<close> elements giving the empty string.
\<close>

fun ToString :: "env \<Rightarrow> json \<Rightarrow> js_error + string" where
  "ToString env JNull = Inr ''null''"
| "ToString env (JBool b) = Inr (if b then ''true'' else ''false'')"
| "ToString env (JNum n) = Inr (NumberToString env n)"
| "ToString env (JStr s) = Inr s"
| "ToString env (JArr xs) =
     (let rs = map (\<lambda>x. if x = JNull then Inr [] else ToString env x) xs
      in if list_ex isl rs then Inl TypeError else Inr (join_comma (map projr rs)))"
| "ToString env (JObj kvs) =
     (if ''toString'' \<in> set (map fst kvs) then Inl TypeError else Inr ''[object Object]'')"

text \<open>
  \<open>Number(v)\<close>.  An array or object is first converted to a string; the string of an
  object, \<open>[object Object]\<close>, is not a numeric literal.
\<close>

fun ToNumber :: "env \<Rightarrow> json \<Rightarrow> js_error + jsnum" where
  "ToNumber env JNull = Inr (Fin 0)"
| "ToNumber env (JBool b) = Inr (Fin (if b then 1 else 0))"
| "ToNumber env (JNum n) = Inr n"
| "ToNumber env (JStr s) = Inr (StringToNumber env s)"
| "ToNumber env (JArr xs) =
     (case ToString env (JArr xs) of Inl e \<Rightarrow> Inl e | Inr s \<Rightarrow> Inr (StringToNumber env s))"
| "ToNumber env (JObj kvs) =
     (if ''toString'' \<in> set (map fst kvs) then Inl TypeError else Inr NaN)"

section \<open>The model\<close>

text \<open>
  A block's \<open>t\<close> is written only by \<open>mkBlock\<close>, the add-heading command, a drag move and the
  import, each time with the result of \<open>clamp\<close>: it is always a Number.  Its \<open>bullets\<close> are
  always an array of strings.  The optional width \<open>w\<close>, written by the resize observer and
  read by the placement only, is left out.
\<close>

record block =
  blk_id :: string
  blk_title :: string
  blk_bullets :: "string list"
  blk_t :: jsnum

record category =
  cat_id :: string
  cat_side :: side
  cat_label :: string
  cat_blocks :: "block list"

record model =
  version :: nat
  effectText :: string
  effectPos :: "jsnum \<times> jsnum"
  effectSize :: "jsnum \<times> jsnum"
  appearance :: "(string \<times> json) list"
  categories :: "category list"

text \<open>
  \<^verbatim>\<open>function mkBlock(t) { return { id: uid(), title: "", bullets: [""], t: clamp(t ?? 0.3, 0.08, 0.92) }; }\<close>
  The second argument is the number of \<open>uid()\<close> calls made so far; the new count is returned.
\<close>

definition mkBlock :: "env \<Rightarrow> nat \<Rightarrow> jsnum option \<Rightarrow> block \<times> nat" where
  "mkBlock env n t =
     (\<lparr> blk_id = uid_at env n, blk_title = [], blk_bullets = [[]],
        blk_t = clamp (case t of None \<Rightarrow> Fin 0.3 | Some v \<Rightarrow> v) (Fin 0.08) (Fin 0.92) \<rparr>, Suc n)"

definition defaultAppearance :: "(string \<times> json) list" where
  "defaultAppearance =
     [(''boneColor'', JStr ''#c00000''), (''boneThickness'', JNum (Fin 10)),
      (''fontSize'', JNum (Fin 12)), (''arrowWidth'', JNum (Fin 140)),
      (''labelWidth'', JNum (Fin 200)), (''ribLength'', JNum (Fin 150)),
      (''blockWidth'', JNum (Fin 300)), (''boneSlant'', JNum (Fin 120))]"

definition defaultCategory :: "env \<Rightarrow> nat \<Rightarrow> side \<Rightarrow> string \<Rightarrow> real \<Rightarrow> category" where
  "defaultCategory env n s l t =
     \<lparr> cat_id = uid_at env n, cat_side = s, cat_label = l,
       cat_blocks = [fst (mkBlock env (Suc n) (Some (Fin t)))] \<rparr>"

definition defaultModel :: "env \<Rightarrow> nat \<Rightarrow> model \<times> nat" where
  "defaultModel env n =
     (\<lparr> version = 6,
        effectText = ''Add your problem here'',
        effectPos = (Fin 0, Fin 0),
        effectSize = (Fin 180, Fin 110),
        appearance = defaultAppearance,
        categories =
          [defaultCategory env n Top ''People'' 0.26,
           defaultCategory env (n + 2) Top ''Methods'' 0.36,
           defaultCategory env (n + 4) Top ''Machines'' 0.26,
           defaultCategory env (n + 6) Bottom ''Materials'' 0.26,
           defaultCategory env (n + 8) Bottom ''Measurement'' 0.36,
           defaultCategory env (n + 10) Bottom ''Environment'' 0.26] \<rparr>, n + 12)"

definition catsBySide :: "model \<Rightarrow> side \<Rightarrow> category list" where
  "catsBySide m s = filter (\<lambda>c. cat_side c = s) (categories m)"

section \<open>Building the bones\<close>

text \<open>
  \<^verbatim>\<open>function spineAnchors(n, startX, endX){
    if (n <= 1) return [ (startX+endX)/2 ];
    const step = (endX - startX) / (n - 1);
    return Array.from({length:n}, (_,i)=> startX + i*step);
  }\<close>
\<close>

definition spineAnchors :: "nat \<Rightarrow> jsnum \<Rightarrow> jsnum \<Rightarrow> jsnum list" where
  "spineAnchors n startX endX =
     (if n \<le> 1 then [js_div (js_add startX endX) (Fin 2)]
      else let step = js_div (js_sub endX startX) (Fin (real n - 1))
           in map (\<lambda>i. js_add startX (js_mul (Fin (real i)) step)) [0..<n])"

text \<open>
  The bone of one category in \<open>drawStaticBones\<close>: \<open>W = 1200\<close>, \<open>H = 720\<close>,
  \<open>midY = Math.round(H * 0.5)\<close>, \<open>yTop = 70\<close>, \<open>yBot = H - 70\<close>.
\<close>

definition categoryBone :: "jsnum \<Rightarrow> side \<Rightarrow> jsnum \<Rightarrow> bone" where
  "categoryBone slant s xS =
     \<lparr> xSpine = xS, ySpine = Fin 360,
       xEdge = clamp (js_sub xS slant) (Fin 90) (Fin (1200 - 40)),
       yEdge = (case s of Top \<Rightarrow> Fin 70 | Bottom \<Rightarrow> Fin (720 - 70)),
       bone_side = s \<rparr>"

text \<open>
  \<open>cats.forEach((cat, i) => ... catBones.set(cat.id, ...))\<close> with \<open>xSpine = xs[i]\<close>:
  \<open>spineAnchors\<close> returns one anchor for each category of a non-empty side.
\<close>

definition setBones ::
  "jsnum \<Rightarrow> side \<Rightarrow> category list \<Rightarrow> jsnum list \<Rightarrow> (string \<rightharpoonup> bone) \<Rightarrow> (string \<rightharpoonup> bone)" where
  "setBones slant s cats xs m =
     fold (\<lambda>(cat, xS) m. m(cat_id cat \<mapsto> categoryBone slant s xS)) (zip cats xs) m"

text \<open>
  \<open>drawStaticBones\<close>, from the cleared \<open>catBones\<close> map to the map it leaves.  The lines it
  draws are not modelled, except that \<open>addLine\<close> stores the stroke in an attribute, which
  converts it to a string; like the three \<open>Number(...)\<close> calls, this throws for some imported
  appearance values, and then the map stays empty.
\<close>

definition drawStaticBones :: "env \<Rightarrow> model \<Rightarrow> js_error + (string \<rightharpoonup> bone)" where
  "drawStaticBones env m =
     (let a = JObj (appearance m);
          stroke = or_else (get_prop a ''boneColor'') (JStr ''#c00000'')
      in bindE (ToNumber env (nullish_else (get_prop a ''boneThickness'') (JNum (Fin 10)))) (\<lambda>thickness.
         bindE (ToNumber env (nullish_else (get_prop a ''arrowWidth'') (JNum (Fin 180)))) (\<lambda>arrowW.
         bindE (ToNumber env (nullish_else (get_prop a ''boneSlant'') (JNum (Fin 120)))) (\<lambda>boneSlant.
         bindE (ToString env stroke) (\<lambda>_.
           let slant = js_add (Fin 120) boneSlant;
               marginL = Fin 160;
               arrowX = js_sub (Fin 1200) arrowW;
               spineStart = marginL;
               spineEnd = arrowX;
               topCats = catsBySide m Top;
               botCats = catsBySide m Bottom;
               topXs = spineAnchors (length topCats) (js_add spineStart (Fin 140)) (js_sub spineEnd (Fin 30));
               botXs = spineAnchors (length botCats) (js_add spineStart (Fin 140)) (js_sub spineEnd (Fin 30))
           in Inr (setBones slant Bottom botCats botXs (setBones slant Top topCats topXs Map.empty)))))))"

section \<open>The editor and its commands\<close>

record selection =
  sel_catId :: "string option"
  sel_blockId :: "string option"

record dragState =
  drag_catId :: string
  drag_blockId :: string
  drag_pointerId :: int
  tOffset :: jsnum

text \<open>The module's variables \<open>model\<close>, \<open>selected\<close>, \<open>catBones\<close> and \<open>drag\<close>.\<close>

record editor =
  model :: model
  selected :: selection
  catBones :: "string \<rightharpoonup> bone"
  drag :: "dragState option"

definition noSelection :: selection where
  "noSelection = \<lparr> sel_catId = None, sel_blockId = None \<rparr>"

text \<open>
  The handlers change a category or a block through the object that \<open>find\<close> returned, which
  is the first one with the identifier.
\<close>

fun update_first :: "('a \<Rightarrow> bool) \<Rightarrow> ('a \<Rightarrow> 'a) \<Rightarrow> 'a list \<Rightarrow> 'a list" where
  "update_first P f [] = []"
| "update_first P f (x # xs) = (if P x then f x # xs else x # update_first P f xs)"

definition select :: "string \<Rightarrow> string \<Rightarrow> editor \<Rightarrow> editor" where
  "select catId blockId st = st\<lparr> selected := \<lparr> sel_catId = Some catId, sel_blockId = Some blockId \<rparr> \<rparr>"

text \<open>
  The click handler of a heading's delete button, which \<open>renderBlocks\<close> builds for the block
  at position \<open>bi\<close> of the category at position \<open>ci\<close>; \<open>ok\<close> is the answer of
  \<open>window.confirm\<close>.  Every change of the structure renders again, so the positions are those
  of the current model; for a position with no block there is no button.
\<close>

definition delBlock_click :: "nat \<Rightarrow> nat \<Rightarrow> bool \<Rightarrow> editor \<Rightarrow> editor" where
  "delBlock_click ci bi ok st =
     (let cats = categories (model st) in
      if \<not> (ci < length cats \<and> bi < length (cat_blocks (cats ! ci))) then st
      else if \<not> ok then st
      else
        let cat = cats ! ci; block = cat_blocks cat ! bi;
            cat' = cat\<lparr> cat_blocks := filter (\<lambda>b. blk_id b \<noteq> blk_id block) (cat_blocks cat) \<rparr>;
            st' = st\<lparr> model := (model st)\<lparr> categories := cats[ci := cat'] \<rparr> \<rparr>
        in if sel_blockId (selected st') = Some (blk_id block)
           then st'\<lparr> selected := noSelection \<rparr> else st')"

text \<open>
  The click handler of the delete mark of bullet \<open>i\<close>:
  \<^verbatim>\<open>block.bullets.splice(i, 1); if (block.bullets.length === 0) block.bullets.push("");\<close>
\<close>

definition splice1 :: "nat \<Rightarrow> 'a list \<Rightarrow> 'a list" where
  "splice1 i xs = take i xs @ drop (Suc i) xs"

definition delBullet_click :: "nat \<Rightarrow> nat \<Rightarrow> nat \<Rightarrow> editor \<Rightarrow> editor" where
  "delBullet_click ci bi i st =
     (let cats = categories (model st) in
      if \<not> (ci < length cats \<and> bi < length (cat_blocks (cats ! ci))) then st
      else
        let cat = cats ! ci; block = cat_blocks cat ! bi;
            bs = splice1 i (blk_bullets block);
            bs' = (if length bs = 0 then bs @ [[]] else bs);
            cat' = cat\<lparr> cat_blocks := (cat_blocks cat)[bi := block\<lparr> blk_bullets := bs' \<rparr>] \<rparr>
        in st\<lparr> model := (model st)\<lparr> categories := cats[ci := cat'] \<rparr> \<rparr>)"

text \<open>The text of a new bullet ends with the ellipsis character U+2026, here in UTF-8.\<close>

definition newBulletText :: string where
  "newBulletText = ''New bullet'' @ [CHR 0xE2, CHR 0x80, CHR 0xA6]"

text \<open>
  In \<open>!selected.catId\<close> the empty string is falsy like \<open>null\<close>.
\<close>

fun falsy_id :: "string option \<Rightarrow> bool" where
  "falsy_id None = True"
| "falsy_id (Some s) = (s = [])"

text \<open>
  The click handler of \<open>btnAddHeading\<close>.  \<open>Number(sel.t ?? 0.3)\<close> is \<open>sel.t\<close>, a block's
  \<open>t\<close> being a Number.
\<close>

definition btnAddHeading_click :: "env \<Rightarrow> editor \<Rightarrow> editor" where
  "btnAddHeading_click env st =
     (if falsy_id (sel_catId (selected st)) then st
      else case find (\<lambda>c. Some (cat_id c) = sel_catId (selected st)) (categories (model st)) of
        None \<Rightarrow> st
      | Some cat \<Rightarrow>
          let sel = find (\<lambda>b. Some (blk_id b) = sel_blockId (selected st)) (cat_blocks cat);
              baseT = (case sel of Some b \<Rightarrow> blk_t b | None \<Rightarrow> Fin 0.3);
              newT = clamp (js_add baseT (Fin 0.10)) (Fin 0.08) (Fin 0.92);
              nb = \<lparr> blk_id = uid_at env 0, blk_title = ''New heading'',
                     blk_bullets = [newBulletText], blk_t = newT \<rparr>;
              cats' = update_first (\<lambda>c. Some (cat_id c) = sel_catId (selected st))
                        (\<lambda>c. c\<lparr> cat_blocks := cat_blocks c @ [nb] \<rparr>) (categories (model st))
          in select (cat_id cat) (blk_id nb) (st\<lparr> model := (model st)\<lparr> categories := cats' \<rparr> \<rparr>))"

definition btnAddBullet_click :: "editor \<Rightarrow> editor" where
  "btnAddBullet_click st =
     (if falsy_id (sel_catId (selected st)) \<or> falsy_id (sel_blockId (selected st)) then st
      else case find (\<lambda>c. Some (cat_id c) = sel_catId (selected st)) (categories (model st)) of
        None \<Rightarrow> st
      | Some cat \<Rightarrow>
          (case find (\<lambda>b. Some (blk_id b) = sel_blockId (selected st)) (cat_blocks cat) of
             None \<Rightarrow> st
           | Some block \<Rightarrow>
               let cats' = update_first (\<lambda>c. Some (cat_id c) = sel_catId (selected st))
                     (\<lambda>c. c\<lparr> cat_blocks :=
                        update_first (\<lambda>b. Some (blk_id b) = sel_blockId (selected st))
                          (\<lambda>b. b\<lparr> blk_bullets := blk_bullets b @ [newBulletText] \<rparr>) (cat_blocks c) \<rparr>)
                     (categories (model st))
               in st\<lparr> model := (model st)\<lparr> categories := cats' \<rparr> \<rparr>))"

text \<open>
  The deferred part of \<open>renderAll\<close> that rebuilds \<open>catBones\<close>: the map is cleared first, so
  it is empty when \<open>drawStaticBones\<close> throws.
\<close>

definition rebuildBones :: "env \<Rightarrow> editor \<Rightarrow> editor" where
  "rebuildBones env st =
     st\<lparr> catBones := (case drawStaticBones env (model st) of Inl e \<Rightarrow> Map.empty | Inr m \<Rightarrow> m) \<rparr>"

section \<open>Dragging along the bone\<close>

text \<open>A pointer event's \<open>clientX\<close>, \<open>clientY\<close> and \<open>wrapper.getBoundingClientRect()\<close>.\<close>

record pointerEvent =
  clientX :: jsnum
  clientY :: jsnum

record rect =
  r_left :: jsnum
  r_top :: jsnum
  r_width :: jsnum
  r_height :: jsnum

text \<open>
  The lines under \<open>// pointer -> svg coords\<close>, the same in \<open>startDrag\<close> and \<open>onDragMove\<close>:
  \<^verbatim>\<open>const px = e.clientX - wrapRect.left; const py = e.clientY - wrapRect.top;
  const x = (px / wrapRect.width) * W; const y = (py / wrapRect.height) * H;\<close>
\<close>

definition svgCoords :: "rect \<Rightarrow> pointerEvent \<Rightarrow> point" where
  "svgCoords wrapRect e =
     (let px = js_sub (clientX e) (r_left wrapRect);
          py = js_sub (clientY e) (r_top wrapRect)
      in \<lparr> pt_x = js_mul (js_div px (r_width wrapRect)) (Fin 1200),
           pt_y = js_mul (js_div py (r_height wrapRect)) (Fin 720) \<rparr>)"

text \<open>
  \<open>startDrag\<close> and \<open>onDragMove\<close>; both return at once unless the category, the block and the
  bone are found.  \<open>Number(block.t ?? 0.3)\<close> is \<open>block.t\<close>, a block's \<open>t\<close> being a Number, and
  \<open>drag.tOffset || 0\<close> is 0 when the offset is 0 or NaN.
\<close>

definition startDrag :: "rect \<Rightarrow> string \<Rightarrow> string \<Rightarrow> int \<Rightarrow> pointerEvent \<Rightarrow> editor \<Rightarrow> editor" where
  "startDrag wrapRect catId blockId pointerId startEvent st =
     (case find (\<lambda>c. cat_id c = catId) (categories (model st)) of
        None \<Rightarrow> st
      | Some cat \<Rightarrow>
          (case find (\<lambda>b. blk_id b = blockId) (cat_blocks cat) of
             None \<Rightarrow> st
           | Some block \<Rightarrow>
               (case catBones st catId of
                  None \<Rightarrow> st
                | Some bone \<Rightarrow>
                    let grabT = projectT (svgCoords wrapRect startEvent) (spinePoint bone) (edgePoint bone);
                        currentT = clamp (blk_t block) (Fin 0.08) (Fin 0.92)
                    in st\<lparr> drag := Some \<lparr> drag_catId = catId, drag_blockId = blockId,
                                           drag_pointerId = pointerId,
                                           tOffset = js_sub currentT grabT \<rparr> \<rparr>)))"

definition onDragMove :: "rect \<Rightarrow> pointerEvent \<Rightarrow> editor \<Rightarrow> editor" where
  "onDragMove wrapRect e st =
     (case drag st of
        None \<Rightarrow> st
      | Some d \<Rightarrow>
          (case find (\<lambda>c. cat_id c = drag_catId d) (categories (model st)) of
             None \<Rightarrow> st
           | Some cat \<Rightarrow>
               (case find (\<lambda>b. blk_id b = drag_blockId d) (cat_blocks cat) of
                  None \<Rightarrow> st
                | Some block \<Rightarrow>
                    (case catBones st (drag_catId d) of
                       None \<Rightarrow> st
                     | Some bone \<Rightarrow>
                         let t = projectT (svgCoords wrapRect e) (spinePoint bone) (edgePoint bone);
                             v = clamp (js_add t (num_or (tOffset d) (Fin 0))) (Fin 0.08) (Fin 0.92);
                             cats' = update_first (\<lambda>c. cat_id c = drag_catId d)
                               (\<lambda>c. c\<lparr> cat_blocks :=
                                  update_first (\<lambda>b. blk_id b = drag_blockId d)
                                    (\<lambda>b. b\<lparr> blk_t := v \<rparr>) (cat_blocks c) \<rparr>)
                               (categories (model st))
                         in st\<lparr> model := (model st)\<lparr> categories := cats' \<rparr> \<rparr>))))"

definition onDragEnd :: "editor \<Rightarrow> editor" where
  "onDragEnd st = st\<lparr> drag := None \<rparr>"

section \<open>Import\<close>

fun is_truthy :: "json option \<Rightarrow> bool" where
  "is_truthy None = False"
| "is_truthy (Some v) = truthy v"

text \<open>
  One element \<open>sb\<close> of a category's \<open>blocks\<close> array:
  \<^verbatim>\<open>({ id: String(sb.id || uid()), title: String(sb.title || ""),
     bullets: Array.isArray(sb.bullets) ? sb.bullets.map(x => String(x)) : [""],
     t: clamp(Number(sb.t ?? 0.3), 0.08, 0.92) })\<close>
  Reading \<open>sb.id\<close> throws when the element is \<open>null\<close>.
\<close>

definition import_block :: "env \<Rightarrow> nat \<Rightarrow> json \<Rightarrow> js_error + (block \<times> nat)" where
  "import_block env n sb =
     (if sb = JNull then Inl TypeError
      else
        bindE (ToString env (or_else (get_prop sb ''id'') (JStr (uid_at env n)))) (\<lambda>i.
        bindE (ToString env (or_else (get_prop sb ''title'') (JStr []))) (\<lambda>ti.
        bindE (case get_prop sb ''bullets'' of
                 Some (JArr xs) \<Rightarrow> mapE (ToString env) xs
               | _ \<Rightarrow> Inr [[]]) (\<lambda>bs.
        bindE (ToNumber env (nullish_else (get_prop sb ''t'') (JNum (Fin 0.3)))) (\<lambda>tn.
          Inr (\<lparr> blk_id = i, blk_title = ti, blk_bullets = bs,
                 blk_t = clamp tn (Fin 0.08) (Fin 0.92) \<rparr>,
               if is_truthy (get_prop sb ''id'') then n else Suc n))))))"

fun import_blocks :: "env \<Rightarrow> nat \<Rightarrow> json list \<Rightarrow> js_error + (block list \<times> nat)" where
  "import_blocks env n [] = Inr ([], n)"
| "import_blocks env n (sb # sbs) =
     (case import_block env n sb of
        Inl e \<Rightarrow> Inl e
      | Inr (b, n') \<Rightarrow>
          (case import_blocks env n' sbs of
             Inl e \<Rightarrow> Inl e
           | Inr (bs, n'') \<Rightarrow> Inr (b # bs, n'')))"

text \<open>
  One category of the import, from the default category \<open>dc\<close> and \<open>sc = cats[i] || {}\<close>:
  \<^verbatim>\<open>{ id: String(sc.id || dc.id || uid()), side: dc.side, label: String(sc.label || dc.label),
    blocks: Array.isArray(sc.blocks) ? sc.blocks.map(sb => ...) : [mkBlock(0.3)] }\<close>
\<close>

definition import_category :: "env \<Rightarrow> nat \<Rightarrow> category \<Rightarrow> json \<Rightarrow> js_error + (category \<times> nat)" where
  "import_category env n dc sc =
     bindE (ToString env (or_else (get_prop sc ''id'')
              (JStr (if cat_id dc \<noteq> [] then cat_id dc else uid_at env n)))) (\<lambda>i.
     let n1 = (if is_truthy (get_prop sc ''id'') \<or> cat_id dc \<noteq> [] then n else Suc n) in
     bindE (ToString env (or_else (get_prop sc ''label'') (JStr (cat_label dc)))) (\<lambda>l.
     bindE (case get_prop sc ''blocks'' of
              Some (JArr sbs) \<Rightarrow> import_blocks env n1 sbs
            | _ \<Rightarrow> (let (b, n2) = mkBlock env n1 (Some (Fin 0.3)) in Inr ([b], n2))) (\<lambda>(bs, n2).
       Inr (\<lparr> cat_id = i, cat_side = cat_side dc, cat_label = l, cat_blocks = bs \<rparr>, n2))))"

text \<open>\<open>cats[i] || {}\<close>\<close>

definition cat_at :: "json list \<Rightarrow> nat \<Rightarrow> json" where
  "cat_at cats i = (if i < length cats \<and> truthy (cats ! i) then cats ! i else JObj [])"

text \<open>\<open>def.categories.map((dc, i) => ...)\<close>, from index \<open>i\<close> on.\<close>

fun import_cats ::
  "env \<Rightarrow> nat \<Rightarrow> json list \<Rightarrow> nat \<Rightarrow> category list \<Rightarrow> js_error + (category list \<times> nat)" where
  "import_cats env n cats i [] = Inr ([], n)"
| "import_cats env n cats i (dc # dcs) =
     (case import_category env n dc (cat_at cats i) of
        Inl e \<Rightarrow> Inl e
      | Inr (c, n') \<Rightarrow>
          (case import_cats env n' cats (Suc i) dcs of
             Inl e \<Rightarrow> Inl e
           | Inr (cs, n'') \<Rightarrow> Inr (c # cs, n'')))"

text \<open>\<open>typeof v === "object"\<close>\<close>

fun is_object :: "json \<Rightarrow> bool" where
  "is_object JNull = True"
| "is_object (JArr xs) = True"
| "is_object (JObj kvs) = True"
| "is_object v = False"

text \<open>The decimal name of an array index.\<close>

fun dec :: "nat \<Rightarrow> string" where
  "dec n = (if n < 10 then [''0123456789'' ! n] else dec (n div 10) @ [''0123456789'' ! (n mod 10)])"

text \<open>The own enumerable members that \<open>{ ...v }\<close> copies.\<close>

fun own_props :: "json \<Rightarrow> (string \<times> json) list" where
  "own_props (JObj kvs) = kvs"
| "own_props (JArr xs) = zip (map dec [0..<length xs]) xs"
| "own_props (JStr s) = zip (map dec [0..<length s]) (map (\<lambda>c. JStr [c]) s)"
| "own_props v = []"

text \<open>\<open>Array.isArray(obj.categories) ? obj.categories : []\<close>, for an \<open>obj\<close> that is not \<open>null\<close>.\<close>

definition payloadCategories :: "json \<Rightarrow> json list" where
  "payloadCategories obj = (case get_prop obj ''categories'' of Some (JArr xs) \<Rightarrow> xs | _ \<Rightarrow> [])"

text \<open>
  The object literal assigned to \<open>model\<close>, for the default model \<open>def\<close>, the parsed value
  \<open>obj\<close> and the categories \<open>fixed\<close>.
\<close>

definition newModel :: "env \<Rightarrow> model \<Rightarrow> json \<Rightarrow> category list \<Rightarrow> js_error + model" where
  "newModel env def obj fixed =
     bindE (ToString env (or_else (get_prop obj ''effectText'') (JStr (effectText def)))) (\<lambda>et.
     bindE (case get_prop obj ''effectPos'' of
              None \<Rightarrow> Inr (effectPos def)
            | Some ep \<Rightarrow>
                if truthy ep \<and> is_object ep
                then bindE (ToNumber env (or_else (get_prop ep ''dx'') (JNum (Fin 0)))) (\<lambda>dx.
                     bindE (ToNumber env (or_else (get_prop ep ''dy'') (JNum (Fin 0)))) (\<lambda>dy.
                       Inr (dx, dy)))
                else Inr (effectPos def)) (\<lambda>ep.
     bindE (case get_prop obj ''effectSize'' of
              None \<Rightarrow> Inr (effectSize def)
            | Some es \<Rightarrow>
                if truthy es \<and> is_object es
                then bindE (ToNumber env (or_else (get_prop es ''w'') (JNum (fst (effectSize def))))) (\<lambda>w.
                     bindE (ToNumber env (or_else (get_prop es ''h'') (JNum (snd (effectSize def))))) (\<lambda>h.
                       Inr (w, h)))
                else Inr (effectSize def)) (\<lambda>es.
       Inr \<lparr> version = 6, effectText = et, effectPos = ep, effectSize = es,
             appearance = appearance def @ own_props (or_else (get_prop obj ''appearance'') (JObj [])),
             categories = fixed \<rparr>)))"

text \<open>
  The body of the \<open>try\<close> block up to the assignment of \<open>model\<close>, for the parsed value \<open>obj\<close>:
  the default model, the payload's categories (reading \<open>obj.categories\<close> throws when \<open>obj\<close>
  is \<open>null\<close>), the six categories \<open>fixed\<close>, and the new model.
\<close>

definition importModel :: "env \<Rightarrow> json \<Rightarrow> js_error + model" where
  "importModel env obj =
     (let (def, n) = defaultModel env 0 in
      if obj = JNull then Inl TypeError
      else
        let cats = payloadCategories obj in
        bindE (import_cats env n cats 0 (categories def)) (\<lambda>(fixed, n').
          newModel env def obj fixed))"

text \<open>
  \<open>syncControlsFromModel\<close> stores eight appearance values in input elements, each converted
  to a string, which can throw; the part of \<open>renderAll\<close> that runs at once converts the same
  values again and no other value of a payload.
\<close>

definition syncControlsFromModel :: "env \<Rightarrow> model \<Rightarrow> js_error + unit" where
  "syncControlsFromModel env m =
     (let a = JObj (appearance m) in
      bindE (mapE (ToString env)
        [or_else (get_prop a ''boneColor'') (JStr ''#c00000''),
         nullish_else (get_prop a ''boneThickness'') (JNum (Fin 10)),
         nullish_else (get_prop a ''fontSize'') (JNum (Fin 12)),
         nullish_else (get_prop a ''arrowWidth'') (JNum (Fin 140)),
         nullish_else (get_prop a ''labelWidth'') (JNum (Fin 200)),
         nullish_else (get_prop a ''ribLength'') (JNum (Fin 150)),
         nullish_else (get_prop a ''blockWidth'') (JNum (Fin 300)),
         nullish_else (get_prop a ''boneSlant'') (JNum (Fin 200))]) (\<lambda>_. Inr ()))"

text \<open>
  The \<open>onload\<close> handler of the import, for the result of \<open>JSON.parse\<close> (\<open>None\<close> when it
  throws a SyntaxError).  The second component says whether the \<open>catch\<close> block ran, which
  shows the alert \<open>Could not read JSON.\<close>
\<close>

definition fileImportJSON_onload :: "env \<Rightarrow> json option \<Rightarrow> editor \<Rightarrow> editor \<times> bool" where
  "fileImportJSON_onload env parsed st =
     (case parsed of
        None \<Rightarrow> (st, True)
      | Some obj \<Rightarrow>
          (case importModel env obj of
             Inl e \<Rightarrow> (st, True)
           | Inr m \<Rightarrow>
               (st\<lparr> model := m, selected := noSelection \<rparr>, isl (syncControlsFromModel env m))))"

text \<open>
  The values of the module's variables when the script starts:
  \<^verbatim>\<open>let model = defaultModel(); let selected = { catId: null, blockId: null };
  const catBones = new Map(); let drag = null;\<close>
\<close>

definition initialEditor :: "env \<Rightarrow> editor" where
  "initialEditor env =
     \<lparr> model = fst (defaultModel env 0), selected = noSelection,
       catBones = Map.empty, drag = None \<rparr>"

text \<open>
  An environment for the examples: \<open>uid()\<close> returns \<open>u0\<close>, \<open>u1\<close>, ... .  The only string
  the examples convert to a number is \<open>abc\<close>, which is not a numeric literal.  They use no
  string obtained from a number (the controls receive such strings, the model never), so the
  conversion of numbers to strings is a placeholder.
\<close>

definition exampleEnv :: env where
  "exampleEnv =
     \<lparr> StringToNumber = (\<lambda>s. NaN), NumberToString = (\<lambda>n. ''NaN''),
       uid_at = (\<lambda>n. CHR ''u'' # dec n) \<rparr>"

text \<open>
  A file with four categories, and the editor after importing it and rebuilding the bones.
  The first category asks for the lower side and holds a block \<open>b\<close> at \<open>t = 0.4\<close>; the
  second holds blocks at \<open>t = 5\<close> and \<open>t = -5\<close>.
\<close>

definition examplePayload :: json where
  "examplePayload =
     JObj [(''categories'', JArr
       [JObj [(''label'', JStr ''Staff''), (''side'', JStr ''bottom''),
              (''blocks'', JArr [JObj [(''id'', JStr ''b''), (''t'', JNum (Fin 0.4))]])],
        JObj [(''label'', JStr ''Process''),
              (''blocks'', JArr [JObj [(''id'', JStr ''p1''), (''t'', JNum (Fin 5))],
                                JObj [(''id'', JStr ''p2''), (''t'', JNum (Fin (- 5)))]])],
        JObj [(''label'', JStr ''Tools''),
              (''blocks'', JArr [JObj [(''id'', JStr ''t1''), (''title'', JStr ''Old'')]])],
        JObj [(''label'', JStr ''Supplies''),
              (''blocks'', JArr [JObj [(''id'', JStr ''s1''), (''bullets'', JArr [JStr ''late''])]])]])]"

definition exampleEditor :: editor where
  "exampleEditor =
     rebuildBones exampleEnv
       (fst (fileImportJSON_onload exampleEnv (Some examplePayload) (initialEditor exampleEnv)))"

text \<open>
  A file whose only block has a \<open>t\<close> that is not a number, and the editor after importing it
  and rebuilding the bones.
\<close>

definition nanPayload :: json where
  "nanPayload =
     JObj [(''categories'', JArr
       [JObj [(''blocks'', JArr [JObj [(''id'', JStr ''b''), (''t'', JStr ''abc'')]])]])]"

definition nanEditor :: editor where
  "nanEditor =
     rebuildBones exampleEnv
       (fst (fileImportJSON_onload exampleEnv (Some nanPayload) (initialEditor exampleEnv)))"

text \<open>
  A file that only sets \<open>boneSlant\<close> to 600, and the editor after importing it into the
  initial editor.
\<close>

definition steepPayload :: json where
  "steepPayload = JObj [(''appearance'', JObj [(''boneSlant'', JNum (Fin 600))])]"

definition steepEditor :: editor where
  "steepEditor = fst (fileImportJSON_onload exampleEnv (Some steepPayload) (initialEditor exampleEnv))"

text \<open>
  A wrapper rectangle of the size of the drawing space at the origin, for which the pointer's
  client coordinates are the drawing coordinates, and the pointer at the points of the first
  upper bone, from \<open>(300, 360)\<close> to \<open>(90, 70)\<close>, for \<open>t = 0.4\<close> and \<open>t = 0.6\<close>.
\<close>

definition exampleRect :: rect where
  "exampleRect = \<lparr> r_left = Fin 0, r_top = Fin 0, r_width = Fin 1200, r_height = Fin 720 \<rparr>"

definition pointerAt04 :: pointerEvent where
  "pointerAt04 = \<lparr> clientX = Fin 216, clientY = Fin 244 \<rparr>"

definition pointerAt06 :: pointerEvent where
  "pointerAt06 = \<lparr> clientX = Fin 174, clientY = Fin 186 \<rparr>"

section \<open>The invariants of the data model\<close>

text \<open>At least one block in every category; at least one bullet string in every block.\<close>

definition everyCategoryHasBlock :: "model \<Rightarrow> bool" where
  "everyCategoryHasBlock m = list_all (\<lambda>c. cat_blocks c \<noteq> []) (categories m)"

definition everyBlockHasBullet :: "model \<Rightarrow> bool" where
  "everyBlockHasBullet m =
     list_all (\<lambda>c. list_all (\<lambda>b. blk_bullets b \<noteq> []) (cat_blocks c)) (categories m)"

section \<open>Facts about numbers and bones\<close>

lemma js_sub_Fin [simp]: "js_sub (Fin a) (Fin b) = Fin (a - b)"
  by (simp add: js_sub_def)

lemma clamp_Fin: "clamp (Fin r) (Fin lo) (Fin hi) = Fin (max lo (min hi r))"
  by (simp add: clamp_def Math_max_def Math_min_def max_def min_def)

lemma clamp_cases:
  "clamp x (Fin lo) (Fin hi) =
     (case x of Fin r \<Rightarrow> Fin (max lo (min hi r)) | PInf \<Rightarrow> Fin (max lo hi)
      | NInf \<Rightarrow> Fin lo | NaN \<Rightarrow> NaN)"
  by (cases x) (simp_all add: clamp_def Math_max_def Math_min_def max_def min_def)

lemma proj_arith:
  fixes ax ay ex ey s :: real
  assumes "0.000001 \<le> (ex - ax)\<^sup>2 + (ey - ay)\<^sup>2"
  shows "(s * (ex - ax) * (ex - ax) + s * (ey - ay) * (ey - ay))
           / ((ex - ax) * (ex - ax) + (ey - ay) * (ey - ay)) = s"
proof -
  have "(ex - ax) * (ex - ax) + (ey - ay) * (ey - ay) = (ex - ax)\<^sup>2 + (ey - ay)\<^sup>2"
    by (simp add: power2_eq_square)
  moreover have "(0::real) < 0.000001" by simp
  ultimately have nz: "(ex - ax) * (ex - ax) + (ey - ay) * (ey - ay) \<noteq> 0"
    using assms by linarith
  have "s * (ex - ax) * (ex - ax) + s * (ey - ay) * (ey - ay)
          = s * ((ex - ax) * (ex - ax) + (ey - ay) * (ey - ay))"
    by (simp add: algebra_simps)
  with nz show ?thesis by simp
qed

lemma projectT_pointOnBone:
  fixes ax ay ex ey s :: real
  assumes "0.000001 \<le> (ex - ax)\<^sup>2 + (ey - ay)\<^sup>2"
  shows "projectT (pointOnBone (finBone ax ay ex ey sd) (Fin s))
            (spinePoint (finBone ax ay ex ey sd)) (edgePoint (finBone ax ay ex ey sd)) = Fin s"
proof -
  let ?D = "(ex - ax) * (ex - ax) + (ey - ay) * (ey - ay)"
  have D: "?D = (ex - ax)\<^sup>2 + (ey - ay)\<^sup>2" by (simp add: power2_eq_square)
  have ge: "\<not> ?D < 0.000001" using assms D by linarith
  have pos: "(0::real) < 0.000001" by simp
  have nz: "?D \<noteq> 0" using assms D pos by linarith
  have dn: "denom (spinePoint (finBone ax ay ex ey sd)) (edgePoint (finBone ax ay ex ey sd)) = Fin ?D"
    by (simp add: denom_def spinePoint_def edgePoint_def finBone_def)
  have p: "pointOnBone (finBone ax ay ex ey sd) (Fin s)
           = \<lparr> pt_x = Fin (ax + s * (ex - ax)), pt_y = Fin (ay + s * (ey - ay)) \<rparr>"
    by (simp add: pointOnBone_def finBone_def)
  show ?thesis
    unfolding p using ge nz proj_arith [OF assms, of s]
    by (simp add: projectT_def dn) (simp add: spinePoint_def edgePoint_def finBone_def)
qed

lemma sq_plus_not_small:
  assumes "e \<le> d * d"
  shows "\<not> js_lt (js_add (js_mul x x) (js_mul (Fin d) (Fin d))) (Fin e)"
proof (cases x)
  case (Fin r)
  have "0 \<le> r * r" by simp
  with assms have "\<not> r * r + d * d < e" by linarith
  with Fin show ?thesis by simp
qed simp_all

lemma categoryBone_nondegenerate:
  "\<not> js_lt (denom (spinePoint (categoryBone slant s xS)) (edgePoint (categoryBone slant s xS)))
       (Fin 0.000001)"
proof -
  have t: "(0.000001::real) \<le> (70 - 360) * (70 - 360)" by simp
  have b: "(0.000001::real) \<le> (720 - 70 - 360) * (720 - 70 - 360)" by simp
  show ?thesis
  proof (cases s)
    case Top
    then show ?thesis
      using sq_plus_not_small [OF t]
      by (simp only: denom_def spinePoint_def edgePoint_def categoryBone_def Let_def
            point.simps bone.simps side.case js_sub_Fin not_False_eq_True)
  next
    case Bottom
    then show ?thesis
      using sq_plus_not_small [OF b]
      by (simp only: denom_def spinePoint_def edgePoint_def categoryBone_def Let_def
            point.simps bone.simps side.case js_sub_Fin not_False_eq_True)
  qed
qed

lemma categoryBone_distinct_ends:
  "spinePoint (categoryBone slant s xS) \<noteq> edgePoint (categoryBone slant s xS)"
  by (cases s) (simp_all add: spinePoint_def edgePoint_def categoryBone_def)

lemma fold_bones_lookup:
  "fold (\<lambda>(cat, xS) m. m(cat_id cat \<mapsto> categoryBone slant s xS)) ps m cid = Some b
   \<Longrightarrow> m cid = Some b \<or> (\<exists>xS. b = categoryBone slant s xS)"
proof (induction ps arbitrary: m)
  case Nil
  then show ?case by simp
next
  case (Cons p ps)
  obtain cat xS where p: "p = (cat, xS)" by (cases p)
  from Cons.prems p
  have "(m(cat_id cat \<mapsto> categoryBone slant s xS)) cid = Some b
        \<or> (\<exists>xS. b = categoryBone slant s xS)"
    using Cons.IH [of "m(cat_id cat \<mapsto> categoryBone slant s xS)"] by simp
  then show ?case by (auto split: if_splits)
qed

lemma setBones_lookup:
  "setBones slant s cats xs m cid = Some b
   \<Longrightarrow> m cid = Some b \<or> (\<exists>xS. b = categoryBone slant s xS)"
  unfolding setBones_def by (rule fold_bones_lookup)

lemma drawStaticBones_lookup:
  assumes "drawStaticBones env m = Inr bones" and "bones cid = Some b"
  shows "\<exists>slant s xS. b = categoryBone slant s xS"
proof -
  from assms(1) obtain slant topXs botXs where
    "bones = setBones slant Bottom (catsBySide m Bottom) botXs
               (setBones slant Top (catsBySide m Top) topXs Map.empty)"
    by (auto simp: drawStaticBones_def bindE_def Let_def split: sum.splits)
  with assms(2) show ?thesis
    by (metis setBones_lookup option.distinct(1))
qed

text \<open>The definitions that evaluate the bones of a concrete model.\<close>

lemmas eval_bones =
  rebuildBones_def initialEditor_def drawStaticBones_def defaultModel_def defaultCategory_def
  mkBlock_def exampleEnv_def defaultAppearance_def bindE_def catsBySide_def spineAnchors_def
  setBones_def categoryBone_def clamp_def Math_max_def Math_min_def js_sub_def

section \<open>Projection and the affine point map\<close>

text \<open>
  C1.  For a bone with finite end points \<open>A = (ax, ay)\<close> and \<open>B = (ex, ey)\<close> whose squared
  length is at least the epsilon \<open>1e-6\<close>, \<open>projectT\<close> inverts \<open>pointOnBone\<close>: for every real
  \<open>s\<close> (in particular for \<open>0 \<le> s \<le> 1\<close>, the points of the segment), the point
  \<open>P = A + s (B - A)\<close> is \<open>pointOnBone\<close> at \<open>s\<close>, \<open>projectT\<close> of \<open>P\<close> is \<open>s\<close>, and
  \<open>pointOnBone\<close> at \<open>projectT\<close> of \<open>P\<close> is \<open>P\<close> again; \<open>projectT\<close> of the spine point is 0 and
  of the edge point is 1.  The arithmetic is that of the reals.
\<close>

theorem projectT_inverts_pointOnBone:
  fixes ax ay ex ey s :: real
  assumes "0.000001 \<le> (ex - ax)\<^sup>2 + (ey - ay)\<^sup>2"
  shows "pointOnBone (finBone ax ay ex ey sd) (Fin s)
           = \<lparr> pt_x = Fin (ax + s * (ex - ax)), pt_y = Fin (ay + s * (ey - ay)) \<rparr>
       \<and> projectT (pointOnBone (finBone ax ay ex ey sd) (Fin s))
            (spinePoint (finBone ax ay ex ey sd)) (edgePoint (finBone ax ay ex ey sd)) = Fin s
       \<and> pointOnBone (finBone ax ay ex ey sd)
            (projectT (pointOnBone (finBone ax ay ex ey sd) (Fin s))
               (spinePoint (finBone ax ay ex ey sd)) (edgePoint (finBone ax ay ex ey sd)))
           = pointOnBone (finBone ax ay ex ey sd) (Fin s)
       \<and> projectT (spinePoint (finBone ax ay ex ey sd))
            (spinePoint (finBone ax ay ex ey sd)) (edgePoint (finBone ax ay ex ey sd)) = Fin 0
       \<and> projectT (edgePoint (finBone ax ay ex ey sd))
            (spinePoint (finBone ax ay ex ey sd)) (edgePoint (finBone ax ay ex ey sd)) = Fin 1"
proof -
  let ?D = "(ex - ax) * (ex - ax) + (ey - ay) * (ey - ay)"
  have D: "?D = (ex - ax)\<^sup>2 + (ey - ay)\<^sup>2" by (simp add: power2_eq_square)
  have ge: "\<not> ?D < 0.000001" using assms D by linarith
  have pos: "(0::real) < 0.000001" by simp
  have nz: "?D \<noteq> 0" using assms D pos by linarith
  have dn: "denom (spinePoint (finBone ax ay ex ey sd)) (edgePoint (finBone ax ay ex ey sd)) = Fin ?D"
    by (simp add: denom_def spinePoint_def edgePoint_def finBone_def)
  have p: "pointOnBone (finBone ax ay ex ey sd) (Fin s)
           = \<lparr> pt_x = Fin (ax + s * (ex - ax)), pt_y = Fin (ay + s * (ey - ay)) \<rparr>"
    by (simp add: pointOnBone_def finBone_def)
  have t: "projectT (pointOnBone (finBone ax ay ex ey sd) (Fin s))
            (spinePoint (finBone ax ay ex ey sd)) (edgePoint (finBone ax ay ex ey sd)) = Fin s"
    using assms by (rule projectT_pointOnBone)
  have t0: "projectT (spinePoint (finBone ax ay ex ey sd))
            (spinePoint (finBone ax ay ex ey sd)) (edgePoint (finBone ax ay ex ey sd)) = Fin 0"
    using ge nz by (simp add: projectT_def dn) (simp add: spinePoint_def edgePoint_def finBone_def)
  have t1: "projectT (edgePoint (finBone ax ay ex ey sd))
            (spinePoint (finBone ax ay ex ey sd)) (edgePoint (finBone ax ay ex ey sd)) = Fin 1"
    using ge nz by (simp add: projectT_def dn) (simp add: spinePoint_def edgePoint_def finBone_def)
  show ?thesis using p t t0 t1 by simp
qed

theorem projectT_inverts_pointOnBone_witness:
  "(0.000001::real) \<le> (90 - 300)\<^sup>2 + (70 - 360)\<^sup>2
   \<and> pointOnBone (finBone 300 360 90 70 Top) (Fin 0.4) = \<lparr> pt_x = Fin 216, pt_y = Fin 244 \<rparr>
   \<and> projectT \<lparr> pt_x = Fin 216, pt_y = Fin 244 \<rparr>
        (spinePoint (finBone 300 360 90 70 Top)) (edgePoint (finBone 300 360 90 70 Top)) = Fin 0.4"
proof -
  have h: "(0.000001::real) \<le> (90 - 300)\<^sup>2 + (70 - 360)\<^sup>2" by simp
  note r = projectT_inverts_pointOnBone [OF h, where s = "0.4" and sd = Top]
  have p: "pointOnBone (finBone 300 360 90 70 Top) (Fin 0.4) = \<lparr> pt_x = Fin 216, pt_y = Fin 244 \<rparr>"
    using r [THEN conjunct1] by simp
  have "projectT (pointOnBone (finBone 300 360 90 70 Top) (Fin 0.4))
        (spinePoint (finBone 300 360 90 70 Top)) (edgePoint (finBone 300 360 90 70 Top)) = Fin 0.4"
    by (rule r [THEN conjunct2, THEN conjunct1])
  with p h show ?thesis by simp
qed

text \<open>
  C2.  \<open>projectT\<close> returns a value for every input, and whenever the squared length
  \<open>denom\<close> of the segment is below \<open>1e-6\<close> that value is exactly 0, whatever the point
  is (its coordinates may even be infinite or NaN); in particular a segment whose two ends
  are the same finite point gives 0.  Every bone that the bone builder leaves in \<open>catBones\<close>
  has a spine point different from its edge point, and its squared length is not below the
  epsilon, so \<open>projectT\<close> never takes the fallback branch for it.
\<close>

theorem projectT_degenerate_guard:
  "(js_lt (denom a b) (Fin 0.000001) \<longrightarrow> projectT p a b = Fin 0)
   \<and> projectT p \<lparr> pt_x = Fin ax, pt_y = Fin ay \<rparr> \<lparr> pt_x = Fin ax, pt_y = Fin ay \<rparr> = Fin 0
   \<and> (catBones (rebuildBones env st) cid = Some bn \<longrightarrow>
        spinePoint bn \<noteq> edgePoint bn
        \<and> \<not> js_lt (denom (spinePoint bn) (edgePoint bn)) (Fin 0.000001))"
proof -
  have g: "js_lt (denom a b) (Fin 0.000001) \<longrightarrow> projectT p a b = Fin 0"
    by (simp add: projectT_def)
  have e: "projectT p \<lparr> pt_x = Fin ax, pt_y = Fin ay \<rparr> \<lparr> pt_x = Fin ax, pt_y = Fin ay \<rparr> = Fin 0"
    by (simp add: projectT_def denom_def)
  have r: "spinePoint bn \<noteq> edgePoint bn
        \<and> \<not> js_lt (denom (spinePoint bn) (edgePoint bn)) (Fin 0.000001)"
    if "catBones (rebuildBones env st) cid = Some bn"
  proof -
    from that obtain bones where "drawStaticBones env (model st) = Inr bones" "bones cid = Some bn"
      by (auto simp: rebuildBones_def split: sum.splits)
    then obtain slant s xS where "bn = categoryBone slant s xS"
      using drawStaticBones_lookup by blast
    then show ?thesis
      using categoryBone_nondegenerate categoryBone_distinct_ends by simp
  qed
  from g e r show ?thesis by blast
qed

theorem projectT_degenerate_guard_witness:
  "js_lt (denom \<lparr> pt_x = Fin 5, pt_y = Fin 7 \<rparr> \<lparr> pt_x = Fin 5, pt_y = Fin 7.0001 \<rparr>) (Fin 0.000001)
   \<and> projectT \<lparr> pt_x = PInf, pt_y = NaN \<rparr> \<lparr> pt_x = Fin 5, pt_y = Fin 7 \<rparr>
        \<lparr> pt_x = Fin 5, pt_y = Fin 7.0001 \<rparr> = Fin 0
   \<and> catBones (rebuildBones exampleEnv (initialEditor exampleEnv)) ''u2''
        = Some \<lparr> xSpine = Fin 665, ySpine = Fin 360, xEdge = Fin 425, yEdge = Fin 70,
                 bone_side = Top \<rparr>
   \<and> \<not> js_lt (denom \<lparr> pt_x = Fin 665, pt_y = Fin 360 \<rparr> \<lparr> pt_x = Fin 425, pt_y = Fin 70 \<rparr>)
         (Fin 0.000001)"
proof -
  have h1: "js_lt (denom \<lparr> pt_x = Fin 5, pt_y = Fin 7 \<rparr> \<lparr> pt_x = Fin 5, pt_y = Fin 7.0001 \<rparr>)
              (Fin 0.000001)"
    by (simp add: denom_def)
  have h2: "catBones (rebuildBones exampleEnv (initialEditor exampleEnv)) ''u2''
        = Some \<lparr> xSpine = Fin 665, ySpine = Fin 360, xEdge = Fin 425, yEdge = Fin 70,
                 bone_side = Top \<rparr>"
    by (simp add: eval_bones)
  note r = projectT_degenerate_guard [where a = "\<lparr> pt_x = Fin 5, pt_y = Fin 7 \<rparr>"
      and b = "\<lparr> pt_x = Fin 5, pt_y = Fin 7.0001 \<rparr>" and p = "\<lparr> pt_x = PInf, pt_y = NaN \<rparr>"
      and env = exampleEnv and st = "initialEditor exampleEnv" and cid = "''u2''"
      and bn = "\<lparr> xSpine = Fin 665, ySpine = Fin 360, xEdge = Fin 425, yEdge = Fin 70,
                  bone_side = Top \<rparr>"]
  from r h1 have c1: "projectT \<lparr> pt_x = PInf, pt_y = NaN \<rparr> \<lparr> pt_x = Fin 5, pt_y = Fin 7 \<rparr>
        \<lparr> pt_x = Fin 5, pt_y = Fin 7.0001 \<rparr> = Fin 0"
    by blast
  from r h2 have c2: "\<not> js_lt (denom \<lparr> pt_x = Fin 665, pt_y = Fin 360 \<rparr>
        \<lparr> pt_x = Fin 425, pt_y = Fin 70 \<rparr>) (Fin 0.000001)"
    by (simp add: spinePoint_def edgePoint_def)
  from h1 c1 h2 c2 show ?thesis by blast
qed

section \<open>Anchors and bones of one side\<close>

lemma length_spineAnchors: "length (spineAnchors n a b) = (if n \<le> 1 then 1 else n)"
  by (simp add: spineAnchors_def Let_def)

lemma spineAnchors_nth:
  assumes "2 \<le> n" and "i < n"
  shows "spineAnchors n (Fin a) (Fin b) ! i = Fin (a + real i * ((b - a) / (real n - 1)))"
proof -
  from assms have "real n - 1 \<noteq> 0" by simp
  with assms show ?thesis by (simp add: spineAnchors_def Let_def)
qed

lemma spineAnchors_one: "spineAnchors 1 (Fin a) (Fin b) = [Fin ((a + b) / 2)]"
  by (simp add: spineAnchors_def)

lemma fold_bones_notin:
  "cid \<notin> set (map (\<lambda>p. cat_id (fst p)) ps)
   \<Longrightarrow> fold (\<lambda>(cat, xS) m. m(cat_id cat \<mapsto> categoryBone slant s xS)) ps m cid = m cid"
  by (induction ps arbitrary: m) (auto split: prod.splits)

lemma fold_bones_nth:
  "distinct (map (\<lambda>p. cat_id (fst p)) ps) \<Longrightarrow> k < length ps
   \<Longrightarrow> fold (\<lambda>(cat, xS) m. m(cat_id cat \<mapsto> categoryBone slant s xS)) ps m (cat_id (fst (ps ! k)))
       = Some (categoryBone slant s (snd (ps ! k)))"
proof (induction ps arbitrary: m k)
  case Nil
  then show ?case by simp
next
  case (Cons p ps)
  obtain cat xS where p: "p = (cat, xS)" by (cases p)
  show ?case
  proof (cases k)
    case 0
    from Cons.prems p have "cat_id cat \<notin> set (map (\<lambda>p. cat_id (fst p)) ps)" by simp
    then have "fold (\<lambda>(cat, xS) m. m(cat_id cat \<mapsto> categoryBone slant s xS)) ps
                 (m(cat_id cat \<mapsto> categoryBone slant s xS)) (cat_id cat)
               = (m(cat_id cat \<mapsto> categoryBone slant s xS)) (cat_id cat)"
      by (rule fold_bones_notin)
    then show ?thesis using 0 p by (simp del: fun_upd_apply) simp
  next
    case (Suc k')
    with Cons.prems have "distinct (map (\<lambda>p. cat_id (fst p)) ps)" "k' < length ps" by simp_all
    then show ?thesis using Suc Cons.IH by (simp del: fun_upd_apply)
  qed
qed

lemma setBones_nth:
  assumes "distinct (map cat_id cats)" and "length xs = length cats" and "k < length cats"
  shows "setBones slant s cats xs m (cat_id (cats ! k)) = Some (categoryBone slant s (xs ! k))"
proof -
  have "map (\<lambda>p. cat_id (fst p)) (zip cats xs) = map cat_id (map fst (zip cats xs))"
    by simp
  also have "\<dots> = map cat_id cats"
    using assms(2) by (simp only: map_fst_zip)
  finally have "map (\<lambda>p. cat_id (fst p)) (zip cats xs) = map cat_id cats" .
  with assms show ?thesis
    unfolding setBones_def
    using fold_bones_nth [of "zip cats xs" k slant s m] by simp
qed

lemma setBones_notin:
  "cid \<notin> set (map cat_id cats) \<Longrightarrow> setBones slant s cats xs m cid = m cid"
proof -
  assume a: "cid \<notin> set (map cat_id cats)"
  have "set (map (\<lambda>p. cat_id (fst p)) (zip cats xs)) \<subseteq> set (map cat_id cats)"
    by (auto dest: set_zip_leftD)
  with a have "cid \<notin> set (map (\<lambda>p. cat_id (fst p)) (zip cats xs))" by blast
  then show ?thesis unfolding setBones_def by (rule fold_bones_notin)
qed

lemma drawStaticBones_nth:
  assumes th: "ToNumber env (nullish_else (get_prop (JObj (appearance m)) ''boneThickness'') (JNum (Fin 10))) = Inr thickness"
    and aw: "ToNumber env (nullish_else (get_prop (JObj (appearance m)) ''arrowWidth'') (JNum (Fin 180))) = Inr arrowW"
    and bs: "ToNumber env (nullish_else (get_prop (JObj (appearance m)) ''boneSlant'') (JNum (Fin 120))) = Inr boneSlant"
    and st: "ToString env (or_else (get_prop (JObj (appearance m)) ''boneColor'') (JStr ''#c00000'')) = Inr stroke"
    and d: "distinct (map cat_id (categories m))"
    and k: "k < length (catsBySide m s)"
  shows "\<exists>bones. drawStaticBones env m = Inr bones \<and>
     bones (cat_id (catsBySide m s ! k))
       = Some (categoryBone (js_add (Fin 120) boneSlant) s
           (spineAnchors (length (catsBySide m s)) (Fin 300)
              (js_sub (js_sub (Fin 1200) arrowW) (Fin 30)) ! k))"
proof -
  let ?sl = "js_add (Fin 120) boneSlant"
  let ?xs = "\<lambda>s. spineAnchors (length (catsBySide m s)) (Fin 300) (js_sub (js_sub (Fin 1200) arrowW) (Fin 30))"
  let ?top = "setBones ?sl Top (catsBySide m Top) (?xs Top) Map.empty"
  let ?bones = "setBones ?sl Bottom (catsBySide m Bottom) (?xs Bottom) ?top"
  have r: "drawStaticBones env m = Inr ?bones"
    using th aw bs st by (simp add: drawStaticBones_def bindE_def Let_def)
  have ds: "distinct (map cat_id (catsBySide m s'))" for s'
    using d by (simp add: catsBySide_def distinct_map_filter)
  have len: "length (?xs s) = length (catsBySide m s)"
    using k by (simp add: length_spineAnchors)
  have nth: "setBones ?sl s (catsBySide m s) (?xs s) mm (cat_id (catsBySide m s ! k))
               = Some (categoryBone ?sl s (?xs s ! k))" for mm
    using setBones_nth [OF ds len k] .
  show ?thesis
  proof (cases s)
    case Bottom
    with r nth show ?thesis by auto
  next
    case Top
    let ?c = "catsBySide m Top ! k"
    from k Top have cin: "?c \<in> set (catsBySide m Top)" by simp
    then have c1: "?c \<in> set (categories m)" "cat_side ?c = Top" by (auto simp: catsBySide_def)
    have "cat_id ?c \<notin> set (map cat_id (catsBySide m Bottom))"
    proof
      assume "cat_id ?c \<in> set (map cat_id (catsBySide m Bottom))"
      then obtain c' where c': "c' \<in> set (categories m)" "cat_side c' = Bottom" "cat_id c' = cat_id ?c"
        by (auto simp: catsBySide_def)
      from d have "inj_on cat_id (set (categories m))" by (simp add: distinct_map)
      with c' c1 have "c' = ?c" by (auto dest: inj_onD)
      with c' c1 show False by simp
    qed
    then have "?bones (cat_id ?c) = ?top (cat_id ?c)" by (rule setBones_notin)
    with r nth [of Map.empty] Top show ?thesis by auto
  qed
qed

lemma pointOnBone_categoryBone:
  "pointOnBone (categoryBone (Fin sl) s (Fin x)) (Fin t)
     = \<lparr> pt_x = Fin (x + t * (max 90 (min 1160 (x - sl)) - x)),
         pt_y = Fin (360 + t * ((case s of Top \<Rightarrow> 70 | Bottom \<Rightarrow> 650) - 360)) \<rparr>"
  by (cases s) (simp_all add: pointOnBone_def categoryBone_def clamp_Fin)

lemma no_crossing:
  fixes xi xj sl t u :: real
  assumes lt: "xi < xj" and t: "0 \<le> t" "t \<le> 1"
    and eq: "pointOnBone (categoryBone (Fin sl) s (Fin xi)) (Fin t)
           = pointOnBone (categoryBone (Fin sl) s (Fin xj)) (Fin u)"
  shows "t = 1 \<and> u = 1 \<and> xEdge (categoryBone (Fin sl) s (Fin xi)) = xEdge (categoryBone (Fin sl) s (Fin xj))"
proof -
  let ?e = "\<lambda>x::real. max 90 (min 1160 (x - sl))"
  let ?h = "(case s of Top \<Rightarrow> 70 | Bottom \<Rightarrow> 650) - (360::real)"
  from eq have y: "360 + t * ?h = 360 + u * ?h"
    and x: "xi + t * (?e xi - xi) = xj + u * (?e xj - xj)"
    by (simp_all add: pointOnBone_categoryBone)
  have "?h \<noteq> 0" by (cases s) simp_all
  with y have tu: "t = u" by simp
  have mono: "?e xi \<le> ?e xj" using lt by (simp add: max_def min_def)
  from x tu have "(1 - t) * (xj - xi) + t * (?e xj - ?e xi) = 0" by (simp add: algebra_simps)
  moreover have "0 \<le> (1 - t) * (xj - xi)" using t lt by simp
  moreover have "0 \<le> t * (?e xj - ?e xi)" using t mono by simp
  ultimately have z: "(1 - t) * (xj - xi) = 0" "t * (?e xj - ?e xi) = 0" by linarith+
  from z(1) lt have t1: "t = 1" by simp
  with z(2) have "?e xj = ?e xi" by simp
  with t1 tu show ?thesis by (simp add: categoryBone_def clamp_Fin)
qed


lemmas eval_import =
  fileImportJSON_onload_def importModel_def newModel_def payloadCategories_def import_category_def cat_at_def import_block_def
  syncControlsFromModel_def noSelection_def

lemma edge_bound:
  fixes xi xj sl :: real
  assumes "xi < xj"
    and "xEdge (categoryBone (Fin sl) s (Fin xi)) = xEdge (categoryBone (Fin sl) s (Fin xj))"
  shows "xEdge (categoryBone (Fin sl) s (Fin xi)) = Fin 90
       \<or> xEdge (categoryBone (Fin sl) s (Fin xi)) = Fin 1160"
  using assms by (simp add: categoryBone_def clamp_Fin max_def min_def split: if_splits)

text \<open>
  C9 (as amended).  \<open>spineAnchors\<close> returns one anchor for each of \<open>n \<ge> 1\<close> categories.
  Over a band with finite ends \<open>a\<close> and \<open>b\<close> and for \<open>n \<ge> 2\<close> the anchor of index \<open>i\<close> is
  \<open>a + i (b - a) / (n - 1)\<close>, the first is the band start and the last the band end; for one
  category it is the band midpoint.  When the appearance values convert (\<open>boneThickness\<close>,
  \<open>arrowWidth\<close> and \<open>boneSlant\<close> to numbers, \<open>boneColor\<close> to a string) and the category
  identifiers are distinct, the bone builder gives the \<open>k\<close>-th category of a side the bone at
  the \<open>k\<close>-th anchor of the band from 300 to \<open>1200 - arrowWidth - 30\<close>; nothing else enters,
  in particular no panel layout.  When the band is finite and has positive width (\<open>a < b\<close>)
  and the slant is finite, the bones at two different anchors of the same side share no
  point, except that they end in the same edge point when the edge \<open>x\<close> of both is clamped
  to the same canvas bound, 90 or 1160.  So it is for the bones that the builder stores for
  two categories of a side, when the appearance values convert, the identifiers are distinct,
  \<open>arrowWidth\<close> is a finite number below 870 and \<open>boneSlant\<close> is a finite number.
\<close>

theorem even_anchors_bones:
  fixes a b sl w bsl :: real
  shows "(1 \<le> n \<longrightarrow> length (spineAnchors n x y) = n)
     \<and> (2 \<le> n \<and> i < n \<longrightarrow>
          spineAnchors n (Fin a) (Fin b) ! i = Fin (a + real i * ((b - a) / (real n - 1))))
     \<and> (2 \<le> n \<longrightarrow> spineAnchors n (Fin a) (Fin b) ! 0 = Fin a
          \<and> spineAnchors n (Fin a) (Fin b) ! (n - 1) = Fin b)
     \<and> spineAnchors 1 (Fin a) (Fin b) = [Fin ((a + b) / 2)]
     \<and> (ToNumber env (nullish_else (get_prop (JObj (appearance (model st))) ''boneThickness'')
            (JNum (Fin 10))) = Inr thickness
        \<and> ToNumber env (nullish_else (get_prop (JObj (appearance (model st))) ''arrowWidth'')
            (JNum (Fin 180))) = Inr arrowW
        \<and> ToNumber env (nullish_else (get_prop (JObj (appearance (model st))) ''boneSlant'')
            (JNum (Fin 120))) = Inr boneSlant
        \<and> ToString env (or_else (get_prop (JObj (appearance (model st))) ''boneColor'')
            (JStr ''#c00000'')) = Inr stroke
        \<and> distinct (map cat_id (categories (model st)))
        \<and> k < length (catsBySide (model st) s)
        \<longrightarrow> catBones (rebuildBones env st) (cat_id (catsBySide (model st) s ! k))
             = Some (categoryBone (js_add (Fin 120) boneSlant) s
                 (spineAnchors (length (catsBySide (model st) s)) (Fin 300)
                    (js_sub (js_sub (Fin 1200) arrowW) (Fin 30)) ! k)))
     \<and> (a < b \<and> 2 \<le> n \<and> i < j \<and> j < n \<longrightarrow>
         (\<forall>t u. 0 \<le> t \<and> t \<le> 1
          \<and> pointOnBone (categoryBone (Fin sl) s (spineAnchors n (Fin a) (Fin b) ! i)) (Fin t)
            = pointOnBone (categoryBone (Fin sl) s (spineAnchors n (Fin a) (Fin b) ! j)) (Fin u)
          \<longrightarrow> t = 1 \<and> u = 1
              \<and> xEdge (categoryBone (Fin sl) s (spineAnchors n (Fin a) (Fin b) ! i))
                = xEdge (categoryBone (Fin sl) s (spineAnchors n (Fin a) (Fin b) ! j))
              \<and> (xEdge (categoryBone (Fin sl) s (spineAnchors n (Fin a) (Fin b) ! i)) = Fin 90
                 \<or> xEdge (categoryBone (Fin sl) s (spineAnchors n (Fin a) (Fin b) ! i)) = Fin 1160)))
     \<and> (ToNumber env (nullish_else (get_prop (JObj (appearance (model st))) ''boneThickness'')
            (JNum (Fin 10))) = Inr thickness
        \<and> ToNumber env (nullish_else (get_prop (JObj (appearance (model st))) ''arrowWidth'')
            (JNum (Fin 180))) = Inr (Fin w)
        \<and> ToNumber env (nullish_else (get_prop (JObj (appearance (model st))) ''boneSlant'')
            (JNum (Fin 120))) = Inr (Fin bsl)
        \<and> ToString env (or_else (get_prop (JObj (appearance (model st))) ''boneColor'')
            (JStr ''#c00000'')) = Inr stroke
        \<and> distinct (map cat_id (categories (model st)))
        \<and> w < 870 \<and> p < q \<and> q < length (catsBySide (model st) s)
        \<longrightarrow> (\<exists>bp bq.
              catBones (rebuildBones env st) (cat_id (catsBySide (model st) s ! p)) = Some bp
            \<and> catBones (rebuildBones env st) (cat_id (catsBySide (model st) s ! q)) = Some bq
            \<and> bp = categoryBone (Fin (120 + bsl)) s
                 (Fin (300 + real p * ((1200 - w - 30 - 300)
                    / (real (length (catsBySide (model st) s)) - 1))))
            \<and> bq = categoryBone (Fin (120 + bsl)) s
                 (Fin (300 + real q * ((1200 - w - 30 - 300)
                    / (real (length (catsBySide (model st) s)) - 1))))
            \<and> (\<forall>t u. 0 \<le> t \<and> t \<le> 1 \<and> pointOnBone bp (Fin t) = pointOnBone bq (Fin u)
                 \<longrightarrow> t = 1 \<and> u = 1 \<and> xEdge bp = xEdge bq
                     \<and> (xEdge bp = Fin 90 \<or> xEdge bp = Fin 1160))))"
proof -
  have len: "length (spineAnchors n x y) = n" if "1 \<le> n"
    using that by (simp add: length_spineAnchors)
  have nth: "spineAnchors n (Fin a) (Fin b) ! i = Fin (a + real i * ((b - a) / (real n - 1)))"
    if "2 \<le> n \<and> i < n"
    using that by (simp add: spineAnchors_nth)
  have ends: "spineAnchors n (Fin a) (Fin b) ! 0 = Fin a
          \<and> spineAnchors n (Fin a) (Fin b) ! (n - 1) = Fin b" if n2: "2 \<le> n"
  proof -
    from n2 have n0: "0 < n" and n1: "n - 1 < n" by simp_all
    have a0: "spineAnchors n (Fin a) (Fin b) ! 0 = Fin a"
      using spineAnchors_nth [OF n2 n0, of a b] by simp
    have nz: "real n - 1 \<noteq> 0" using n2 by simp
    have "real (n - 1) = real n - 1" using n2 by (simp add: of_nat_diff)
    then have "a + real (n - 1) * ((b - a) / (real n - 1)) = b" using nz by simp
    then have "spineAnchors n (Fin a) (Fin b) ! (n - 1) = Fin b"
      using spineAnchors_nth [OF n2 n1, of a b] by simp
    with a0 show ?thesis by simp
  qed
  have bones: "catBones (rebuildBones env st) (cat_id (catsBySide (model st) s ! k))
             = Some (categoryBone (js_add (Fin 120) boneSlant) s
                 (spineAnchors (length (catsBySide (model st) s)) (Fin 300)
                    (js_sub (js_sub (Fin 1200) arrowW) (Fin 30)) ! k))"
    if "ToNumber env (nullish_else (get_prop (JObj (appearance (model st))) ''boneThickness'')
            (JNum (Fin 10))) = Inr thickness"
      "ToNumber env (nullish_else (get_prop (JObj (appearance (model st))) ''arrowWidth'')
            (JNum (Fin 180))) = Inr arrowW"
      "ToNumber env (nullish_else (get_prop (JObj (appearance (model st))) ''boneSlant'')
            (JNum (Fin 120))) = Inr boneSlant"
      "ToString env (or_else (get_prop (JObj (appearance (model st))) ''boneColor'')
            (JStr ''#c00000'')) = Inr stroke"
      "distinct (map cat_id (categories (model st)))"
      "k < length (catsBySide (model st) s)"
    for arrowW boneSlant k
    using drawStaticBones_nth [OF that] by (auto simp: rebuildBones_def)
  have apart: "t = 1 \<and> u = 1
        \<and> xEdge (categoryBone (Fin sl') s (Fin (a' + real i' * ((b' - a') / (real n' - 1)))))
          = xEdge (categoryBone (Fin sl') s (Fin (a' + real j' * ((b' - a') / (real n' - 1)))))
        \<and> (xEdge (categoryBone (Fin sl') s (Fin (a' + real i' * ((b' - a') / (real n' - 1))))) = Fin 90
           \<or> xEdge (categoryBone (Fin sl') s (Fin (a' + real i' * ((b' - a') / (real n' - 1))))) = Fin 1160)"
    if h: "a' < b'" "2 \<le> n'" "i' < j'" "j' < n'" and tt: "0 \<le> t" "t \<le> 1"
      and eq: "pointOnBone (categoryBone (Fin sl') s (Fin (a' + real i' * ((b' - a') / (real n' - 1))))) (Fin t)
        = pointOnBone (categoryBone (Fin sl') s (Fin (a' + real j' * ((b' - a') / (real n' - 1))))) (Fin u)"
    for a' b' sl' t u :: real and n' i' j' :: nat
  proof -
    have st: "0 < (b' - a') / (real n' - 1)" using h(1,2) by simp
    have "real i' < real j'" using h(3) by simp
    then have "real i' * ((b' - a') / (real n' - 1)) < real j' * ((b' - a') / (real n' - 1))"
      using st by (rule mult_strict_right_mono)
    then have lt: "a' + real i' * ((b' - a') / (real n' - 1)) < a' + real j' * ((b' - a') / (real n' - 1))"
      by (simp only: add_less_cancel_left)
    from no_crossing [OF lt tt eq] edge_bound [OF lt] show ?thesis by blast
  qed
  have nc: "\<forall>t u. 0 \<le> t \<and> t \<le> 1
          \<and> pointOnBone (categoryBone (Fin sl) s (spineAnchors n (Fin a) (Fin b) ! i)) (Fin t)
            = pointOnBone (categoryBone (Fin sl) s (spineAnchors n (Fin a) (Fin b) ! j)) (Fin u)
          \<longrightarrow> t = 1 \<and> u = 1
              \<and> xEdge (categoryBone (Fin sl) s (spineAnchors n (Fin a) (Fin b) ! i))
                = xEdge (categoryBone (Fin sl) s (spineAnchors n (Fin a) (Fin b) ! j))
              \<and> (xEdge (categoryBone (Fin sl) s (spineAnchors n (Fin a) (Fin b) ! i)) = Fin 90
                 \<or> xEdge (categoryBone (Fin sl) s (spineAnchors n (Fin a) (Fin b) ! i)) = Fin 1160)"
    if h: "a < b \<and> 2 \<le> n \<and> i < j \<and> j < n"
  proof -
    from h have h': "a < b" "2 \<le> n" "i < j" "j < n" "i < n" by simp_all
    have ai: "spineAnchors n (Fin a) (Fin b) ! i = Fin (a + real i * ((b - a) / (real n - 1)))"
      using h'(2,5) by (rule spineAnchors_nth)
    have aj: "spineAnchors n (Fin a) (Fin b) ! j = Fin (a + real j * ((b - a) / (real n - 1)))"
      using h'(2,4) by (rule spineAnchors_nth)
    show ?thesis unfolding ai aj using apart [OF h'(1-4)] by blast
  qed
  have built: "\<exists>bp bq.
              catBones (rebuildBones env st) (cat_id (catsBySide (model st) s ! p)) = Some bp
            \<and> catBones (rebuildBones env st) (cat_id (catsBySide (model st) s ! q)) = Some bq
            \<and> bp = categoryBone (Fin (120 + bsl)) s
                 (Fin (300 + real p * ((1200 - w - 30 - 300)
                    / (real (length (catsBySide (model st) s)) - 1))))
            \<and> bq = categoryBone (Fin (120 + bsl)) s
                 (Fin (300 + real q * ((1200 - w - 30 - 300)
                    / (real (length (catsBySide (model st) s)) - 1))))
            \<and> (\<forall>t u. 0 \<le> t \<and> t \<le> 1 \<and> pointOnBone bp (Fin t) = pointOnBone bq (Fin u)
                 \<longrightarrow> t = 1 \<and> u = 1 \<and> xEdge bp = xEdge bq
                     \<and> (xEdge bp = Fin 90 \<or> xEdge bp = Fin 1160))"
    if c: "ToNumber env (nullish_else (get_prop (JObj (appearance (model st))) ''boneThickness'')
            (JNum (Fin 10))) = Inr thickness"
      "ToNumber env (nullish_else (get_prop (JObj (appearance (model st))) ''arrowWidth'')
            (JNum (Fin 180))) = Inr (Fin w)"
      "ToNumber env (nullish_else (get_prop (JObj (appearance (model st))) ''boneSlant'')
            (JNum (Fin 120))) = Inr (Fin bsl)"
      "ToString env (or_else (get_prop (JObj (appearance (model st))) ''boneColor'')
            (JStr ''#c00000'')) = Inr stroke"
      "distinct (map cat_id (categories (model st)))"
      and g: "w < 870" "p < q" "q < length (catsBySide (model st) s)"
  proof -
    let ?N = "length (catsBySide (model st) s)"
    let ?x = "\<lambda>r::nat. 300 + real r * ((1200 - w - 30 - 300) / (real ?N - 1))"
    from g have pN: "p < ?N" and N2: "2 \<le> ?N" by simp_all
    have band: "(300::real) < 1200 - w - 30" using g(1) by simp
    have xp: "spineAnchors ?N (Fin 300) (js_sub (js_sub (Fin 1200) (Fin w)) (Fin 30)) ! p = Fin (?x p)"
      using spineAnchors_nth [OF N2 pN, of 300 "1200 - w - 30"] by simp
    have xq: "spineAnchors ?N (Fin 300) (js_sub (js_sub (Fin 1200) (Fin w)) (Fin 30)) ! q = Fin (?x q)"
      using spineAnchors_nth [OF N2 g(3), of 300 "1200 - w - 30"] by simp
    have bp: "catBones (rebuildBones env st) (cat_id (catsBySide (model st) s ! p))
        = Some (categoryBone (Fin (120 + bsl)) s (Fin (?x p)))"
      using bones [OF c pN] xp by simp
    have bq: "catBones (rebuildBones env st) (cat_id (catsBySide (model st) s ! q))
        = Some (categoryBone (Fin (120 + bsl)) s (Fin (?x q)))"
      using bones [OF c g(3)] xq by simp
    have "\<forall>t u. 0 \<le> t \<and> t \<le> 1
          \<and> pointOnBone (categoryBone (Fin (120 + bsl)) s (Fin (?x p))) (Fin t)
            = pointOnBone (categoryBone (Fin (120 + bsl)) s (Fin (?x q))) (Fin u)
          \<longrightarrow> t = 1 \<and> u = 1
            \<and> xEdge (categoryBone (Fin (120 + bsl)) s (Fin (?x p)))
              = xEdge (categoryBone (Fin (120 + bsl)) s (Fin (?x q)))
            \<and> (xEdge (categoryBone (Fin (120 + bsl)) s (Fin (?x p))) = Fin 90
               \<or> xEdge (categoryBone (Fin (120 + bsl)) s (Fin (?x p))) = Fin 1160)"
      using apart [OF band N2 g(2,3)] by blast
    with bp bq show ?thesis by blast
  qed
  show ?thesis
    apply (intro conjI impI)
    subgoal by (rule len)
    subgoal by (rule nth)
    subgoal using ends by simp
    subgoal using ends by simp
    subgoal by (rule spineAnchors_one)
    subgoal by (rule bones) simp_all
    subgoal by (rule nc)
    subgoal by (rule built) simp_all
    done
qed

text \<open>
  The exception is real, and so is the condition on the band.  After an import that sets
  \<open>boneSlant\<close> to 600 the bones of the first two upper categories end in the same edge point
  \<open>(90, 70)\<close>; after one that sets \<open>arrowWidth\<close> to 870 the band has width 0 and the two
  bones are the same segment.
\<close>

theorem bones_touch_counterexample:
  "catBones (rebuildBones exampleEnv (fst (fileImportJSON_onload exampleEnv
       (Some (JObj [(''appearance'', JObj [(''boneSlant'', JNum (Fin 600))])]))
       (initialEditor exampleEnv)))) ''u0''
     = Some \<lparr> xSpine = Fin 300, ySpine = Fin 360, xEdge = Fin 90, yEdge = Fin 70, bone_side = Top \<rparr>
   \<and> catBones (rebuildBones exampleEnv (fst (fileImportJSON_onload exampleEnv
       (Some (JObj [(''appearance'', JObj [(''boneSlant'', JNum (Fin 600))])]))
       (initialEditor exampleEnv)))) ''u2''
     = Some \<lparr> xSpine = Fin 665, ySpine = Fin 360, xEdge = Fin 90, yEdge = Fin 70, bone_side = Top \<rparr>
   \<and> pointOnBone \<lparr> xSpine = Fin 300, ySpine = Fin 360, xEdge = Fin 90, yEdge = Fin 70,
          bone_side = Top \<rparr> (Fin 1)
     = pointOnBone \<lparr> xSpine = Fin 665, ySpine = Fin 360, xEdge = Fin 90, yEdge = Fin 70,
          bone_side = Top \<rparr> (Fin 1)
   \<and> catBones (rebuildBones exampleEnv (fst (fileImportJSON_onload exampleEnv
       (Some (JObj [(''appearance'', JObj [(''arrowWidth'', JNum (Fin 870))])]))
       (initialEditor exampleEnv)))) ''u0''
     = Some \<lparr> xSpine = Fin 300, ySpine = Fin 360, xEdge = Fin 90, yEdge = Fin 70, bone_side = Top \<rparr>
   \<and> catBones (rebuildBones exampleEnv (fst (fileImportJSON_onload exampleEnv
       (Some (JObj [(''appearance'', JObj [(''arrowWidth'', JNum (Fin 870))])]))
       (initialEditor exampleEnv)))) ''u2''
     = Some \<lparr> xSpine = Fin 300, ySpine = Fin 360, xEdge = Fin 90, yEdge = Fin 70, bone_side = Top \<rparr>"
  by (simp add: eval_import eval_bones pointOnBone_def)

theorem even_anchors_bones_witness:
  "(300::real) < 1030 \<and> (2::nat) \<le> 3 \<and> (0::nat) < 1 \<and> (1::nat) < 3
   \<and> length (spineAnchors 3 NaN PInf) = 3
   \<and> spineAnchors 3 (Fin 300) (Fin 1030) ! 1 = Fin 665
   \<and> spineAnchors 3 (Fin 300) (Fin 1030) ! 2 = Fin 1030
   \<and> catBones (rebuildBones exampleEnv (initialEditor exampleEnv)) ''u2''
        = Some (categoryBone (Fin 240) Top (Fin 665))
   \<and> pointOnBone (categoryBone (Fin 720) Top (Fin 300)) (Fin 1)
        = pointOnBone (categoryBone (Fin 720) Top (Fin 665)) (Fin 1)
   \<and> xEdge (categoryBone (Fin 720) Top (Fin 300)) = xEdge (categoryBone (Fin 720) Top (Fin 665))
   \<and> catBones (rebuildBones exampleEnv steepEditor) ''u0''
        = Some (categoryBone (Fin 720) Top (Fin 300))
   \<and> catBones (rebuildBones exampleEnv steepEditor) ''u2''
        = Some (categoryBone (Fin 720) Top (Fin 665))
   \<and> xEdge (categoryBone (Fin 720) Top (Fin 300)) = Fin 90"
proof -
  have h: "(300::real) < 1030" "(2::nat) \<le> 3" "(0::nat) < 1" "(1::nat) < 3" by simp_all
  note r = even_anchors_bones [where a = 300 and b = 1030 and n = 3 and i = 0 and j = 1
      and sl = 720 and s = Top and env = exampleEnv
      and st = "initialEditor exampleEnv" and k = 1 and thickness = "Fin 10"
      and arrowW = "Fin 140" and boneSlant = "Fin 120" and stroke = "''#c00000''"]
  have l: "length (spineAnchors 3 NaN PInf) = 3"
    using even_anchors_bones [where n = 3 and x = NaN and y = PInf, THEN conjunct1] by simp
  have a1: "spineAnchors 3 (Fin 300) (Fin 1030) ! 1 = Fin 665"
    using even_anchors_bones [where a = 300 and b = 1030 and n = 3 and i = 1,
        THEN conjunct2, THEN conjunct1] by simp
  then have a1': "spineAnchors 3 (Fin 300) (Fin 1030) ! Suc 0 = Fin 665"
    by simp
  have a0: "spineAnchors 3 (Fin 300) (Fin 1030) ! 0 = Fin 300"
    using r [THEN conjunct2, THEN conjunct2, THEN conjunct1] by simp
  have a2: "spineAnchors 3 (Fin 300) (Fin 1030) ! 2 = Fin 1030"
    using r [THEN conjunct2, THEN conjunct2, THEN conjunct1] by simp
  have pre: "ToNumber exampleEnv (nullish_else (get_prop (JObj (appearance (model (initialEditor exampleEnv))))
               ''boneThickness'') (JNum (Fin 10))) = Inr (Fin 10)"
    "ToNumber exampleEnv (nullish_else (get_prop (JObj (appearance (model (initialEditor exampleEnv))))
               ''arrowWidth'') (JNum (Fin 180))) = Inr (Fin 140)"
    "ToNumber exampleEnv (nullish_else (get_prop (JObj (appearance (model (initialEditor exampleEnv))))
               ''boneSlant'') (JNum (Fin 120))) = Inr (Fin 120)"
    "ToString exampleEnv (or_else (get_prop (JObj (appearance (model (initialEditor exampleEnv))))
               ''boneColor'') (JStr ''#c00000'')) = Inr ''#c00000''"
    "distinct (map cat_id (categories (model (initialEditor exampleEnv))))"
    "1 < length (catsBySide (model (initialEditor exampleEnv)) Top)"
    by (simp_all add: initialEditor_def defaultModel_def catsBySide_def defaultAppearance_def
        defaultCategory_def exampleEnv_def)
  have c: "cat_id (catsBySide (model (initialEditor exampleEnv)) Top ! Suc 0) = ''u2''"
    "length (catsBySide (model (initialEditor exampleEnv)) Top) = 3"
    by (simp_all add: initialEditor_def defaultModel_def catsBySide_def defaultCategory_def
        exampleEnv_def)
  from r [THEN conjunct2, THEN conjunct2, THEN conjunct2, THEN conjunct2, THEN conjunct1] pre
  have "catBones (rebuildBones exampleEnv (initialEditor exampleEnv))
        (cat_id (catsBySide (model (initialEditor exampleEnv)) Top ! 1))
      = Some (categoryBone (js_add (Fin 120) (Fin 120)) Top
          (spineAnchors (length (catsBySide (model (initialEditor exampleEnv)) Top)) (Fin 300)
             (js_sub (js_sub (Fin 1200) (Fin 140)) (Fin 30)) ! 1))"
    by blast
  then have b: "catBones (rebuildBones exampleEnv (initialEditor exampleEnv)) ''u2''
        = Some (categoryBone (Fin 240) Top (Fin 665))"
    by (simp add: c a1')
  have p: "pointOnBone (categoryBone (Fin 720) Top (Fin 300)) (Fin 1)
        = pointOnBone (categoryBone (Fin 720) Top (Fin 665)) (Fin 1)"
    by (simp add: pointOnBone_categoryBone)
  from r [THEN conjunct2, THEN conjunct2, THEN conjunct2, THEN conjunct2, THEN conjunct2,
      THEN conjunct1] h
  have "\<forall>t u. 0 \<le> t \<and> t \<le> 1
          \<and> pointOnBone (categoryBone (Fin 720) Top (spineAnchors 3 (Fin 300) (Fin 1030) ! 0)) (Fin t)
            = pointOnBone (categoryBone (Fin 720) Top (spineAnchors 3 (Fin 300) (Fin 1030) ! 1)) (Fin u)
          \<longrightarrow> t = 1 \<and> u = 1
              \<and> xEdge (categoryBone (Fin 720) Top (spineAnchors 3 (Fin 300) (Fin 1030) ! 0))
                = xEdge (categoryBone (Fin 720) Top (spineAnchors 3 (Fin 300) (Fin 1030) ! 1))"
    by blast
  then have "(0::real) \<le> 1 \<and> (1::real) \<le> 1
          \<and> pointOnBone (categoryBone (Fin 720) Top (Fin 300)) (Fin 1)
            = pointOnBone (categoryBone (Fin 720) Top (Fin 665)) (Fin 1)
          \<longrightarrow> xEdge (categoryBone (Fin 720) Top (Fin 300))
                = xEdge (categoryBone (Fin 720) Top (Fin 665))"
    unfolding a0 a1 by blast
  with p have e: "xEdge (categoryBone (Fin 720) Top (Fin 300))
                = xEdge (categoryBone (Fin 720) Top (Fin 665))" by simp
  have spre: "ToNumber exampleEnv (nullish_else (get_prop (JObj (appearance (model steepEditor)))
               ''boneThickness'') (JNum (Fin 10))) = Inr (Fin 10)"
    "ToNumber exampleEnv (nullish_else (get_prop (JObj (appearance (model steepEditor)))
               ''arrowWidth'') (JNum (Fin 180))) = Inr (Fin 140)"
    "ToNumber exampleEnv (nullish_else (get_prop (JObj (appearance (model steepEditor)))
               ''boneSlant'') (JNum (Fin 120))) = Inr (Fin 600)"
    "ToString exampleEnv (or_else (get_prop (JObj (appearance (model steepEditor)))
               ''boneColor'') (JStr ''#c00000'')) = Inr ''#c00000''"
    "distinct (map cat_id (categories (model steepEditor)))"
    "(140::real) < 870" "(0::nat) < 1"
    "1 < length (catsBySide (model steepEditor) Top)"
    by (simp_all add: steepEditor_def steepPayload_def eval_import initialEditor_def
        defaultModel_def catsBySide_def defaultAppearance_def defaultCategory_def exampleEnv_def
        mkBlock_def bindE_def)
  have sc: "cat_id (catsBySide (model steepEditor) Top ! 0) = ''u0''"
    "cat_id (catsBySide (model steepEditor) Top ! Suc 0) = ''u2''"
    "length (catsBySide (model steepEditor) Top) = 3"
    by (simp_all add: steepEditor_def steepPayload_def eval_import initialEditor_def
        defaultModel_def catsBySide_def defaultAppearance_def defaultCategory_def exampleEnv_def
        mkBlock_def bindE_def)
  from even_anchors_bones [where env = exampleEnv and st = steepEditor and s = Top
      and thickness = "Fin 10" and w = 140 and bsl = 600 and stroke = "''#c00000''"
      and p = 0 and q = 1,
      THEN conjunct2, THEN conjunct2, THEN conjunct2, THEN conjunct2, THEN conjunct2,
      THEN conjunct2] spre
  obtain bp bq where
    s0: "catBones (rebuildBones exampleEnv steepEditor) (cat_id (catsBySide (model steepEditor) Top ! 0))
          = Some bp"
    and s1: "catBones (rebuildBones exampleEnv steepEditor) (cat_id (catsBySide (model steepEditor) Top ! 1))
          = Some bq"
    and s2: "bp = categoryBone (Fin (120 + 600)) Top
                 (Fin (300 + real (0::nat) * ((1200 - 140 - 30 - 300)
                    / (real (length (catsBySide (model steepEditor) Top)) - 1))))"
    and s3: "bq = categoryBone (Fin (120 + 600)) Top
                 (Fin (300 + real (1::nat) * ((1200 - 140 - 30 - 300)
                    / (real (length (catsBySide (model steepEditor) Top)) - 1))))"
    and s4: "\<forall>t u. 0 \<le> t \<and> t \<le> 1 \<and> pointOnBone bp (Fin t) = pointOnBone bq (Fin u)
                 \<longrightarrow> t = 1 \<and> u = 1 \<and> xEdge bp = xEdge bq
                     \<and> (xEdge bp = Fin 90 \<or> xEdge bp = Fin 1160)"
    by blast
  from s2 have bp: "bp = categoryBone (Fin 720) Top (Fin 300)" by (simp add: sc)
  from s3 have bq: "bq = categoryBone (Fin 720) Top (Fin 665)" by (simp add: sc)
  from s0 bp have t0: "catBones (rebuildBones exampleEnv steepEditor) ''u0''
        = Some (categoryBone (Fin 720) Top (Fin 300))" by (simp add: sc)
  from s1 bq have t1: "catBones (rebuildBones exampleEnv steepEditor) ''u2''
        = Some (categoryBone (Fin 720) Top (Fin 665))" by (simp add: sc)
  have z: "(0::real) \<le> 1" "(1::real) \<le> 1" by simp_all
  have "pointOnBone bp (Fin 1) = pointOnBone bq (Fin 1)" unfolding bp bq by (rule p)
  with s4 z have "xEdge bp = Fin 90 \<or> xEdge bp = Fin 1160" by blast
  moreover have "xEdge (categoryBone (Fin 720) Top (Fin 300)) \<noteq> Fin 1160"
    by (simp add: categoryBone_def clamp_Fin)
  ultimately have t2: "xEdge (categoryBone (Fin 720) Top (Fin 300)) = Fin 90"
    unfolding bp by simp
  show ?thesis
    apply (intro conjI)
    subgoal by (rule h)
    subgoal by (rule h)
    subgoal by (rule h)
    subgoal by (rule h)
    subgoal by (rule l)
    subgoal by (rule a1)
    subgoal by (rule a2)
    subgoal by (rule b)
    subgoal by (rule p)
    subgoal by (rule e)
    subgoal by (rule t0)
    subgoal by (rule t1)
    subgoal by (rule t2)
    done
qed

section \<open>Facts about the commands\<close>


lemma update_first_none: "find P xs = None \<Longrightarrow> update_first P f xs = xs"
  by (induction xs) (auto split: if_splits)

lemma find_update_first:
  "(\<And>x. P (f x) = P x) \<Longrightarrow> find P (update_first P f xs) = map_option f (find P xs)"
  by (induction xs) auto

lemma length_update_first [simp]: "length (update_first P f xs) = length xs"
  by (induction xs) auto

lemma find_SomeD: "find P xs = Some x \<Longrightarrow> P x \<and> x \<in> set xs"
  by (induction xs) (auto split: if_splits)

lemma startDrag_found:
  assumes "find (\<lambda>c. cat_id c = cid) (categories (model st)) = Some cat"
    and "find (\<lambda>b. blk_id b = bid) (cat_blocks cat) = Some block"
    and "catBones st cid = Some bone"
  shows "startDrag wr cid bid pid press st
     = st\<lparr> drag := Some \<lparr> drag_catId = cid, drag_blockId = bid, drag_pointerId = pid,
          tOffset = js_sub (clamp (blk_t block) (Fin 0.08) (Fin 0.92))
                      (projectT (svgCoords wr press) (spinePoint bone) (edgePoint bone)) \<rparr> \<rparr>"
  using assms by (simp add: startDrag_def)

lemma onDragMove_found:
  assumes d: "drag st = Some d" "drag_catId d = cid" "drag_blockId d = bid"
    and c: "find (\<lambda>c. cat_id c = cid) (categories (model st)) = Some cat"
    and b: "find (\<lambda>b. blk_id b = bid) (cat_blocks cat) = Some block"
    and bn: "catBones st cid = Some bone"
  shows "\<exists>cat'. find (\<lambda>c. cat_id c = cid) (categories (model (onDragMove wr e st))) = Some cat'
      \<and> find (\<lambda>b. blk_id b = bid) (cat_blocks cat')
          = Some (block\<lparr> blk_t := clamp (js_add (projectT (svgCoords wr e) (spinePoint bone) (edgePoint bone))
                                             (num_or (tOffset d) (Fin 0))) (Fin 0.08) (Fin 0.92) \<rparr>)"
    and "drag (onDragMove wr e st) = drag st"
    and "catBones (onDragMove wr e st) = catBones st"
proof -
  let ?v = "clamp (js_add (projectT (svgCoords wr e) (spinePoint bone) (edgePoint bone))
                                             (num_or (tOffset d) (Fin 0))) (Fin 0.08) (Fin 0.92)"
  let ?fb = "\<lambda>b. b\<lparr> blk_t := ?v \<rparr>"
  let ?fc = "\<lambda>c. c\<lparr> cat_blocks := update_first (\<lambda>b. blk_id b = bid) ?fb (cat_blocks c) \<rparr>"
  have m: "onDragMove wr e st
      = st\<lparr> model := (model st)\<lparr> categories :=
            update_first (\<lambda>c. cat_id c = cid) ?fc (categories (model st)) \<rparr> \<rparr>"
    using d c b bn by (simp add: onDragMove_def Let_def)
  have "find (\<lambda>c. cat_id c = cid) (update_first (\<lambda>c. cat_id c = cid) ?fc (categories (model st)))
          = Some (?fc cat)"
    using c by (simp add: find_update_first)
  moreover have "find (\<lambda>b. blk_id b = bid) (cat_blocks (?fc cat)) = Some (?fb block)"
    using b by (simp add: find_update_first)
  ultimately show "\<exists>cat'. find (\<lambda>c. cat_id c = cid) (categories (model (onDragMove wr e st))) = Some cat'
      \<and> find (\<lambda>b. blk_id b = bid) (cat_blocks cat') = Some (block\<lparr> blk_t := ?v \<rparr>)"
    using m by simp
  show "drag (onDragMove wr e st) = drag st" using m by simp
  show "catBones (onDragMove wr e st) = catBones st" using m by simp
qed

lemma num_or_add: "off \<noteq> NaN \<Longrightarrow> js_add x (num_or off (Fin 0)) = js_add x off"
  by (simp add: num_or_def)

section \<open>Adding a heading\<close>


section \<open>Offset-corrected drag\<close>

text \<open>
  C4 (as amended).  When \<open>startDrag\<close> finds the category, the block and the bone, it leaves
  the model as it is and stores \<open>tOffset = currentT - grabT\<close>, where \<open>currentT\<close> is the clamped
  \<open>t\<close> of the block and \<open>grabT\<close> the projection of the press point on the bone.  A move
  during a drag of that block stores \<open>clamp(projectT(pointer) + (tOffset || 0), 0.08, 0.92)\<close>
  in the block and keeps the drag: this is \<open>clamp(projectT(pointer) + tOffset, 0.08, 0.92)\<close>
  whenever the stored offset is a number, and \<open>clamp(projectT(pointer), 0.08, 0.92)\<close> when it
  is NaN.  For a finite bone of squared length at least \<open>1e-6\<close> and a block at \<open>t = 0.4\<close>,
  pressing at the bone point for 0.4 and moving to the bone point for 0.6 stores exactly 0.6
  (in real arithmetic).
\<close>

theorem drag_offset_corrected:
  assumes c: "find (\<lambda>c. cat_id c = cid) (categories (model st)) = Some cat"
    and b: "find (\<lambda>b. blk_id b = bid) (cat_blocks cat) = Some block"
    and bn: "catBones st cid = Some bone"
  shows "drag (startDrag wr cid bid pid press st)
       = Some \<lparr> drag_catId = cid, drag_blockId = bid, drag_pointerId = pid,
            tOffset = js_sub (clamp (blk_t block) (Fin 0.08) (Fin 0.92))
                        (projectT (svgCoords wr press) (spinePoint bone) (edgePoint bone)) \<rparr>
     \<and> model (startDrag wr cid bid pid press st) = model st
     \<and> (drag st = Some d \<and> drag_catId d = cid \<and> drag_blockId d = bid \<longrightarrow>
          (\<exists>cat'. find (\<lambda>c. cat_id c = cid) (categories (model (onDragMove wr e st))) = Some cat'
             \<and> find (\<lambda>b. blk_id b = bid) (cat_blocks cat')
                 = Some (block\<lparr> blk_t :=
                      clamp (js_add (projectT (svgCoords wr e) (spinePoint bone) (edgePoint bone))
                               (num_or (tOffset d) (Fin 0))) (Fin 0.08) (Fin 0.92) \<rparr>))
          \<and> drag (onDragMove wr e st) = drag st
          \<and> (tOffset d \<noteq> NaN \<longrightarrow>
               clamp (js_add (projectT (svgCoords wr e) (spinePoint bone) (edgePoint bone))
                        (num_or (tOffset d) (Fin 0))) (Fin 0.08) (Fin 0.92)
               = clamp (js_add (projectT (svgCoords wr e) (spinePoint bone) (edgePoint bone))
                        (tOffset d)) (Fin 0.08) (Fin 0.92)))
     \<and> (bone = finBone ax ay ex ey sd \<and> 0.000001 \<le> (ex - ax)\<^sup>2 + (ey - ay)\<^sup>2
        \<and> blk_t block = Fin 0.4
        \<and> svgCoords wr press = pointOnBone bone (Fin 0.4)
        \<and> svgCoords wr moved = pointOnBone bone (Fin 0.6) \<longrightarrow>
          (\<exists>cat'. find (\<lambda>c. cat_id c = cid)
                     (categories (model (onDragMove wr moved (startDrag wr cid bid pid press st)))) = Some cat'
             \<and> find (\<lambda>b. blk_id b = bid) (cat_blocks cat') = Some (block\<lparr> blk_t := Fin 0.6 \<rparr>)))"
proof -
  note s = startDrag_found [OF c b bn, of wr pid press]
  have p1: "drag (startDrag wr cid bid pid press st)
       = Some \<lparr> drag_catId = cid, drag_blockId = bid, drag_pointerId = pid,
            tOffset = js_sub (clamp (blk_t block) (Fin 0.08) (Fin 0.92))
                        (projectT (svgCoords wr press) (spinePoint bone) (edgePoint bone)) \<rparr>"
    and p2: "model (startDrag wr cid bid pid press st) = model st"
    and p2': "catBones (startDrag wr cid bid pid press st) = catBones st"
    by (simp_all add: s)
  have p3: "(\<exists>cat'. find (\<lambda>c. cat_id c = cid) (categories (model (onDragMove wr e st))) = Some cat'
             \<and> find (\<lambda>b. blk_id b = bid) (cat_blocks cat')
                 = Some (block\<lparr> blk_t :=
                      clamp (js_add (projectT (svgCoords wr e) (spinePoint bone) (edgePoint bone))
                               (num_or (tOffset d) (Fin 0))) (Fin 0.08) (Fin 0.92) \<rparr>))
          \<and> drag (onDragMove wr e st) = drag st
          \<and> (tOffset d \<noteq> NaN \<longrightarrow>
               clamp (js_add (projectT (svgCoords wr e) (spinePoint bone) (edgePoint bone))
                        (num_or (tOffset d) (Fin 0))) (Fin 0.08) (Fin 0.92)
               = clamp (js_add (projectT (svgCoords wr e) (spinePoint bone) (edgePoint bone))
                        (tOffset d)) (Fin 0.08) (Fin 0.92))"
    if "drag st = Some d" "drag_catId d = cid" "drag_blockId d = bid"
    using onDragMove_found [OF that c b bn, of wr e] by (simp add: num_or_add)
  have p4: "\<exists>cat'. find (\<lambda>c. cat_id c = cid)
                     (categories (model (onDragMove wr moved (startDrag wr cid bid pid press st)))) = Some cat'
             \<and> find (\<lambda>b. blk_id b = bid) (cat_blocks cat') = Some (block\<lparr> blk_t := Fin 0.6 \<rparr>)"
    if h: "bone = finBone ax ay ex ey sd" "0.000001 \<le> (ex - ax)\<^sup>2 + (ey - ay)\<^sup>2"
      "blk_t block = Fin 0.4"
      "svgCoords wr press = pointOnBone bone (Fin 0.4)"
      "svgCoords wr moved = pointOnBone bone (Fin 0.6)"
  proof -
    let ?st1 = "startDrag wr cid bid pid press st"
    have g: "projectT (svgCoords wr press) (spinePoint bone) (edgePoint bone) = Fin 0.4"
      using projectT_pointOnBone [OF h(2), of sd "0.4"] h(1,4) by simp
    have t: "projectT (svgCoords wr moved) (spinePoint bone) (edgePoint bone) = Fin 0.6"
      using projectT_pointOnBone [OF h(2), of sd "0.6"] h(1,5) by simp
    have off: "js_sub (clamp (blk_t block) (Fin 0.08) (Fin 0.92))
                 (projectT (svgCoords wr press) (spinePoint bone) (edgePoint bone)) = Fin 0"
      by (simp add: g h(3) clamp_Fin)
    let ?d = "\<lparr> drag_catId = cid, drag_blockId = bid, drag_pointerId = pid, tOffset = Fin 0 \<rparr>"
    have d1: "drag ?st1 = Some ?d" using p1 off by simp
    have c1: "find (\<lambda>c. cat_id c = cid) (categories (model ?st1)) = Some cat" using c p2 by simp
    have bn1: "catBones ?st1 cid = Some bone" using bn p2' by simp
    have "clamp (js_add (projectT (svgCoords wr moved) (spinePoint bone) (edgePoint bone))
                               (num_or (tOffset ?d) (Fin 0))) (Fin 0.08) (Fin 0.92) = Fin 0.6"
      by (simp add: t num_or_def clamp_Fin)
    with onDragMove_found(1) [OF d1 _ _ c1 b bn1, of wr moved] show ?thesis by simp
  qed
  from p1 p2 p3 p4 show ?thesis by blast
qed

section \<open>The example editors\<close>

lemmas eval_model =
  initialEditor_def defaultModel_def defaultCategory_def mkBlock_def exampleEnv_def
  defaultAppearance_def bindE_def clamp_def Math_max_def Math_min_def

lemma exampleEditor_categories:
  "categories (model exampleEditor) =
     [\<lparr> cat_id = ''u0'', cat_side = Top, cat_label = ''Staff'',
        cat_blocks = [\<lparr> blk_id = ''b'', blk_title = [], blk_bullets = [[]], blk_t = Fin 0.4 \<rparr>] \<rparr>,
      \<lparr> cat_id = ''u2'', cat_side = Top, cat_label = ''Process'',
        cat_blocks = [\<lparr> blk_id = ''p1'', blk_title = [], blk_bullets = [[]], blk_t = Fin 0.92 \<rparr>,
                      \<lparr> blk_id = ''p2'', blk_title = [], blk_bullets = [[]], blk_t = Fin 0.08 \<rparr>] \<rparr>,
      \<lparr> cat_id = ''u4'', cat_side = Top, cat_label = ''Tools'',
        cat_blocks = [\<lparr> blk_id = ''t1'', blk_title = ''Old'', blk_bullets = [[]], blk_t = Fin 0.3 \<rparr>] \<rparr>,
      \<lparr> cat_id = ''u6'', cat_side = Bottom, cat_label = ''Supplies'',
        cat_blocks = [\<lparr> blk_id = ''s1'', blk_title = [], blk_bullets = [''late''], blk_t = Fin 0.3 \<rparr>] \<rparr>,
      \<lparr> cat_id = ''u8'', cat_side = Bottom, cat_label = ''Measurement'',
        cat_blocks = [\<lparr> blk_id = ''u12'', blk_title = [], blk_bullets = [[]], blk_t = Fin 0.3 \<rparr>] \<rparr>,
      \<lparr> cat_id = ''u10'', cat_side = Bottom, cat_label = ''Environment'',
        cat_blocks = [\<lparr> blk_id = ''u13'', blk_title = [], blk_bullets = [[]], blk_t = Fin 0.3 \<rparr>] \<rparr>]"
  by (simp add: exampleEditor_def examplePayload_def rebuildBones_def eval_import eval_model)

lemma exampleEditor_bone:
  "catBones exampleEditor ''u0'' = Some (finBone 300 360 90 70 Top)"
  by (simp add: exampleEditor_def examplePayload_def eval_import eval_bones finBone_def)


lemma nanEditor_categories:
  "categories (model nanEditor) =
     [\<lparr> cat_id = ''u0'', cat_side = Top, cat_label = ''People'',
        cat_blocks = [\<lparr> blk_id = ''b'', blk_title = [], blk_bullets = [[]], blk_t = NaN \<rparr>] \<rparr>,
      \<lparr> cat_id = ''u2'', cat_side = Top, cat_label = ''Methods'',
        cat_blocks = [\<lparr> blk_id = ''u12'', blk_title = [], blk_bullets = [[]], blk_t = Fin 0.3 \<rparr>] \<rparr>,
      \<lparr> cat_id = ''u4'', cat_side = Top, cat_label = ''Machines'',
        cat_blocks = [\<lparr> blk_id = ''u13'', blk_title = [], blk_bullets = [[]], blk_t = Fin 0.3 \<rparr>] \<rparr>,
      \<lparr> cat_id = ''u6'', cat_side = Bottom, cat_label = ''Materials'',
        cat_blocks = [\<lparr> blk_id = ''u14'', blk_title = [], blk_bullets = [[]], blk_t = Fin 0.3 \<rparr>] \<rparr>,
      \<lparr> cat_id = ''u8'', cat_side = Bottom, cat_label = ''Measurement'',
        cat_blocks = [\<lparr> blk_id = ''u15'', blk_title = [], blk_bullets = [[]], blk_t = Fin 0.3 \<rparr>] \<rparr>,
      \<lparr> cat_id = ''u10'', cat_side = Bottom, cat_label = ''Environment'',
        cat_blocks = [\<lparr> blk_id = ''u16'', blk_title = [], blk_bullets = [[]], blk_t = Fin 0.3 \<rparr>] \<rparr>]"
  by (simp add: nanEditor_def nanPayload_def rebuildBones_def eval_import eval_model)

lemma nanEditor_bone:
  "catBones nanEditor ''u0'' = Some (finBone 300 360 90 70 Top)"
  by (simp add: nanEditor_def nanPayload_def eval_import eval_bones finBone_def)

lemma example_points:
  "svgCoords exampleRect pointerAt04 = pointOnBone (finBone 300 360 90 70 Top) (Fin 0.4)"
  "svgCoords exampleRect pointerAt06 = pointOnBone (finBone 300 360 90 70 Top) (Fin 0.6)"
  by (simp_all add: svgCoords_def exampleRect_def pointerAt04_def pointerAt06_def pointOnBone_def
        finBone_def)

lemma example_projections:
  "projectT (svgCoords exampleRect pointerAt04) (spinePoint (finBone 300 360 90 70 Top))
      (edgePoint (finBone 300 360 90 70 Top)) = Fin 0.4"
  "projectT (svgCoords exampleRect pointerAt06) (spinePoint (finBone 300 360 90 70 Top))
      (edgePoint (finBone 300 360 90 70 Top)) = Fin 0.6"
  by (simp_all add: svgCoords_def exampleRect_def pointerAt04_def pointerAt06_def projectT_def
        denom_def spinePoint_def edgePoint_def finBone_def)

section \<open>Examples of adding a heading and of dragging\<close>



theorem drag_offset_corrected_witness:
  "find (\<lambda>c. cat_id c = ''u0'') (categories (model (startDrag exampleRect ''u0'' ''b'' 1 pointerAt04 exampleEditor)))
     = Some \<lparr> cat_id = ''u0'', cat_side = Top, cat_label = ''Staff'',
        cat_blocks = [\<lparr> blk_id = ''b'', blk_title = [], blk_bullets = [[]], blk_t = Fin 0.4 \<rparr>] \<rparr>
   \<and> catBones (startDrag exampleRect ''u0'' ''b'' 1 pointerAt04 exampleEditor) ''u0''
       = Some (finBone 300 360 90 70 Top)
   \<and> drag (startDrag exampleRect ''u0'' ''b'' 1 pointerAt04 exampleEditor)
       = Some \<lparr> drag_catId = ''u0'', drag_blockId = ''b'', drag_pointerId = 1, tOffset = Fin 0 \<rparr>
   \<and> (0.000001::real) \<le> (90 - 300)\<^sup>2 + (70 - 360)\<^sup>2
   \<and> (\<exists>cat'. find (\<lambda>c. cat_id c = ''u0'')
          (categories (model (onDragMove exampleRect pointerAt06
             (startDrag exampleRect ''u0'' ''b'' 1 pointerAt04 exampleEditor)))) = Some cat'
        \<and> find (\<lambda>b. blk_id b = ''b'') (cat_blocks cat')
            = Some \<lparr> blk_id = ''b'', blk_title = [], blk_bullets = [[]], blk_t = Fin 0.6 \<rparr>)"
proof -
  let ?cat = "\<lparr> cat_id = ''u0'', cat_side = Top, cat_label = ''Staff'',
        cat_blocks = [\<lparr> blk_id = ''b'', blk_title = [], blk_bullets = [[]], blk_t = Fin 0.4 \<rparr>] \<rparr>"
  let ?block = "\<lparr> blk_id = ''b'', blk_title = [], blk_bullets = [[]], blk_t = Fin 0.4 \<rparr>"
  let ?bone = "finBone 300 360 90 70 Top"
  let ?st = "startDrag exampleRect ''u0'' ''b'' 1 pointerAt04 exampleEditor"
  let ?d = "\<lparr> drag_catId = ''u0'', drag_blockId = ''b'', drag_pointerId = 1, tOffset = Fin 0 \<rparr>"
  have c0: "find (\<lambda>c. cat_id c = ''u0'') (categories (model exampleEditor)) = Some ?cat"
    by (simp add: exampleEditor_categories)
  have b: "find (\<lambda>b. blk_id b = ''b'') (cat_blocks ?cat) = Some ?block" by simp
  have st: "?st = exampleEditor\<lparr> drag := Some ?d \<rparr>"
    using startDrag_found [OF c0 b exampleEditor_bone, of exampleRect 1 pointerAt04]
    by (simp add: example_projections clamp_Fin)
  have c: "find (\<lambda>c. cat_id c = ''u0'') (categories (model ?st)) = Some ?cat"
    using c0 by (simp add: st)
  have bn: "catBones ?st ''u0'' = Some ?bone" by (simp add: st exampleEditor_bone)
  have d: "drag ?st = Some ?d" by (simp add: st)
  have len: "(0.000001::real) \<le> (90 - 300)\<^sup>2 + (70 - 360)\<^sup>2" by simp
  note r = drag_offset_corrected [OF c b bn, where wr = exampleRect and pid = 1
      and d = ?d and e = pointerAt06 and press = pointerAt04 and moved = pointerAt06
      and ax = 300 and ay = 360 and ex = 90 and ey = 70 and sd = Top]
  have m: "\<exists>cat'. find (\<lambda>c. cat_id c = ''u0'')
          (categories (model (onDragMove exampleRect pointerAt06 ?st))) = Some cat'
        \<and> find (\<lambda>b. blk_id b = ''b'') (cat_blocks cat')
            = Some \<lparr> blk_id = ''b'', blk_title = [], blk_bullets = [[]], blk_t = Fin 0.6 \<rparr>"
    using r d by (simp add: example_projections num_or_def clamp_Fin)
  from c bn d len m show ?thesis by blast
qed

text \<open>
  A stored offset can be NaN: here the dragged block was imported with a \<open>t\<close> that is not a
  number.  The move then stores \<open>clamp(projectT(pointer) + 0)\<close>, which is 0.6, and not
  \<open>clamp(projectT(pointer) + tOffset)\<close>, which is NaN.
\<close>

theorem drag_nan_offset_counterexample:
  "map_option tOffset (drag (startDrag exampleRect ''u0'' ''b'' 1 pointerAt04 nanEditor)) = Some NaN
   \<and> map blk_t (cat_blocks (hd (categories (model
        (onDragMove exampleRect pointerAt06
           (startDrag exampleRect ''u0'' ''b'' 1 pointerAt04 nanEditor)))))) = [Fin 0.6]
   \<and> clamp (js_add (projectT (svgCoords exampleRect pointerAt06)
                      (spinePoint (finBone 300 360 90 70 Top)) (edgePoint (finBone 300 360 90 70 Top)))
              NaN) (Fin 0.08) (Fin 0.92) = NaN"
proof -
  let ?cat = "\<lparr> cat_id = ''u0'', cat_side = Top, cat_label = ''People'',
        cat_blocks = [\<lparr> blk_id = ''b'', blk_title = [], blk_bullets = [[]], blk_t = NaN \<rparr>] \<rparr>"
  let ?block = "\<lparr> blk_id = ''b'', blk_title = [], blk_bullets = [[]], blk_t = NaN \<rparr>"
  let ?st = "startDrag exampleRect ''u0'' ''b'' 1 pointerAt04 nanEditor"
  let ?d = "\<lparr> drag_catId = ''u0'', drag_blockId = ''b'', drag_pointerId = 1, tOffset = NaN \<rparr>"
  have c0: "find (\<lambda>c. cat_id c = ''u0'') (categories (model nanEditor)) = Some ?cat"
    by (simp add: nanEditor_categories)
  have b: "find (\<lambda>b. blk_id b = ''b'') (cat_blocks ?cat) = Some ?block" by simp
  have st: "?st = nanEditor\<lparr> drag := Some ?d \<rparr>"
    using startDrag_found [OF c0 b nanEditor_bone, of exampleRect 1 pointerAt04]
    by (simp add: example_projections clamp_def Math_max_def Math_min_def js_sub_def)
  have mv: "map blk_t (cat_blocks (hd (categories (model (onDragMove exampleRect pointerAt06 ?st)))))
      = [Fin 0.6]"
    by (simp add: st onDragMove_def nanEditor_categories nanEditor_bone example_projections
          num_or_def clamp_Fin)
  have f: "clamp (js_add (projectT (svgCoords exampleRect pointerAt06)
                      (spinePoint (finBone 300 360 90 70 Top)) (edgePoint (finBone 300 360 90 70 Top)))
              NaN) (Fin 0.08) (Fin 0.92) = NaN"
    by (simp add: example_projections clamp_def Math_max_def Math_min_def)
  from st mv f show ?thesis by simp
qed

section \<open>Facts about the import\<close>

lemma import_cats_sides:
  "import_cats env n cats i dcs = Inr (cs, n') \<Longrightarrow> map cat_side cs = map cat_side dcs"
proof (induction dcs arbitrary: n i cs)
  case Nil
  then show ?case by simp
next
  case (Cons dc dcs)
  from Cons.prems obtain c n1 cs' where
    c: "import_category env n dc (cat_at cats i) = Inr (c, n1)"
    and r: "import_cats env n1 cats (Suc i) dcs = Inr (cs', n')"
    and cs: "cs = c # cs'"
    by (auto split: sum.splits prod.splits)
  from c have "cat_side c = cat_side dc"
    by (auto simp: import_category_def bindE_def Let_def split: sum.splits prod.splits)
  with Cons.IH [OF r] cs show ?case by simp
qed

lemma import_cats_nth:
  "import_cats env n cats i dcs = Inr (cs, n') \<Longrightarrow> j < length dcs
   \<Longrightarrow> \<exists>k k'. import_category env k (dcs ! j) (cat_at cats (i + j)) = Inr (cs ! j, k')"
proof (induction dcs arbitrary: n i cs j)
  case Nil
  then show ?case by simp
next
  case (Cons dc dcs)
  from Cons.prems(1) obtain c n1 cs' where
    c: "import_category env n dc (cat_at cats i) = Inr (c, n1)"
    and r: "import_cats env n1 cats (Suc i) dcs = Inr (cs', n')"
    and cs: "cs = c # cs'"
    by (auto split: sum.splits prod.splits)
  show ?case
  proof (cases j)
    case 0
    with c cs show ?thesis by auto
  next
    case (Suc j')
    with Cons.prems(2) have "j' < length dcs" by simp
    from Cons.IH [OF r this] Suc cs show ?thesis by simp
  qed
qed

lemma import_category_absent:
  assumes "import_category env n dc (JObj []) = Inr (c, n')"
  shows "cat_label c = cat_label dc \<and> cat_side c = cat_side dc
     \<and> (cat_id dc \<noteq> [] \<longrightarrow> cat_id c = cat_id dc)
     \<and> (\<exists>k. cat_blocks c = [\<lparr> blk_id = uid_at env k, blk_title = [], blk_bullets = [[]],
                                 blk_t = Fin 0.3 \<rparr>])"
proof -
  have "clamp (Fin 0.3) (Fin 0.08) (Fin 0.92) = Fin 0.3" by (simp add: clamp_Fin)
  with assms show ?thesis
    by (auto simp: import_category_def bindE_def Let_def mkBlock_def split: if_splits)
qed

lemma import_category_present:
  assumes "import_category env n dc sc = Inr (c, n')"
    and "get_prop sc ''label'' = Some (JStr l)" and "l \<noteq> []"
    and "get_prop sc ''blocks'' = Some (JArr sbs)"
  shows "cat_label c = l \<and> cat_side c = cat_side dc
     \<and> (\<exists>k. import_blocks env k sbs = Inr (cat_blocks c, n'))"
  using assms
  by (auto simp: import_category_def bindE_def Let_def split: sum.splits prod.splits)

lemma import_category_no_blocks:
  assumes "import_category env n dc sc = Inr (c, n')"
    and "\<And>sbs. get_prop sc ''blocks'' \<noteq> Some (JArr sbs)"
  shows "\<exists>k. cat_blocks c = [\<lparr> blk_id = uid_at env k, blk_title = [], blk_bullets = [[]],
                                 blk_t = Fin 0.3 \<rparr>]"
proof -
  have "clamp (Fin 0.3) (Fin 0.08) (Fin 0.92) = Fin 0.3" by (simp add: clamp_Fin)
  with assms show ?thesis
    by (auto simp: import_category_def bindE_def Let_def mkBlock_def
        split: sum.splits prod.splits option.splits json.splits)
qed

lemma bindE_InrD: "bindE x f = Inr y \<Longrightarrow> \<exists>a. x = Inr a \<and> f a = Inr y"
  by (cases x) (simp_all add: bindE_def)

lemma newModel_categories: "newModel env def obj fixed = Inr m \<Longrightarrow> categories m = fixed"
proof -
  assume "newModel env def obj fixed = Inr m"
  then obtain et ep es where
    "m = \<lparr> version = 6, effectText = et, effectPos = ep, effectSize = es,
           appearance = appearance def @ own_props (or_else (get_prop obj ''appearance'') (JObj [])),
           categories = fixed \<rparr>"
    unfolding newModel_def by (blast dest!: bindE_InrD)
  then show ?thesis by simp
qed

lemma importModel_unfold:
  "importModel env obj =
     (if obj = JNull then Inl TypeError
      else bindE (import_cats env 12 (payloadCategories obj) 0 (categories (fst (defaultModel env 0))))
             (\<lambda>(fixed, n'). newModel env (fst (defaultModel env 0)) obj fixed))"
proof -
  have "snd (defaultModel env 0) = 12" by (simp add: defaultModel_def)
  then show ?thesis by (simp add: importModel_def Let_def split_def)
qed

lemma importModel_categories:
  assumes "importModel env obj = Inr m"
  shows "obj \<noteq> JNull \<and> (\<exists>n'. import_cats env 12 (payloadCategories obj) 0
            (categories (fst (defaultModel env 0))) = Inr (categories m, n'))"
proof -
  from assms have nn: "obj \<noteq> JNull" by (auto simp: importModel_unfold)
  with assms obtain a where
    a: "import_cats env 12 (payloadCategories obj) 0 (categories (fst (defaultModel env 0))) = Inr a"
    and r: "(case a of (fixed, n') \<Rightarrow> newModel env (fst (defaultModel env 0)) obj fixed) = Inr m"
    by (auto simp: importModel_unfold dest!: bindE_InrD)
  obtain fixed n' where p: "a = (fixed, n')" by (cases a)
  with r have "categories m = fixed" by (simp add: newModel_categories)
  with a p nn show ?thesis by auto
qed

lemma default_sides:
  "map cat_side (categories (fst (defaultModel env n))) = [Top, Top, Top, Bottom, Bottom, Bottom]"
  by (simp add: defaultModel_def defaultCategory_def)

lemma cat_at_beyond: "length cats \<le> i \<Longrightarrow> cat_at cats i = JObj []"
  by (simp add: cat_at_def)

lemma cat_at_object: "i < length cats \<Longrightarrow> cats ! i = JObj kvs \<Longrightarrow> cat_at cats i = JObj kvs"
  by (simp add: cat_at_def)

lemma mapE_JStr: "mapE (ToString env) (map JStr ss) = Inr ss"
  by (induction ss) simp_all

lemma import_block_taken:
  assumes "import_block env n sb = Inr (b, n')"
  shows "sb \<noteq> JNull
     \<and> ToString env (or_else (get_prop sb ''title'') (JStr [])) = Inr (blk_title b)
     \<and> (case get_prop sb ''bullets'' of Some (JArr xs) \<Rightarrow> mapE (ToString env) xs | _ \<Rightarrow> Inr [[]])
         = Inr (blk_bullets b)
     \<and> (\<exists>tn. ToNumber env (nullish_else (get_prop sb ''t'') (JNum (Fin 0.3))) = Inr tn
             \<and> blk_t b = clamp tn (Fin 0.08) (Fin 0.92))
     \<and> (\<exists>k. ToString env (or_else (get_prop sb ''id'') (JStr (uid_at env k))) = Inr (blk_id b))
     \<and> (\<forall>s. get_prop sb ''id'' = Some (JStr s) \<and> s \<noteq> [] \<longrightarrow> blk_id b = s)
     \<and> (\<forall>ti. get_prop sb ''title'' = Some (JStr ti) \<longrightarrow> blk_title b = ti)
     \<and> (\<forall>ss. get_prop sb ''bullets'' = Some (JArr (map JStr ss)) \<longrightarrow> blk_bullets b = ss)
     \<and> (\<forall>x. get_prop sb ''t'' = Some (JNum x) \<longrightarrow> blk_t b = clamp x (Fin 0.08) (Fin 0.92))"
proof -
  from assms have nn: "sb \<noteq> JNull" by (auto simp: import_block_def split: if_splits)
  with assms have "bindE (ToString env (or_else (get_prop sb ''id'') (JStr (uid_at env n)))) (\<lambda>i.
        bindE (ToString env (or_else (get_prop sb ''title'') (JStr []))) (\<lambda>ti.
        bindE (case get_prop sb ''bullets'' of
                 Some (JArr xs) \<Rightarrow> mapE (ToString env) xs
               | _ \<Rightarrow> Inr [[]]) (\<lambda>bs.
        bindE (ToNumber env (nullish_else (get_prop sb ''t'') (JNum (Fin 0.3)))) (\<lambda>tn.
          Inr (\<lparr> blk_id = i, blk_title = ti, blk_bullets = bs,
                 blk_t = clamp tn (Fin 0.08) (Fin 0.92) \<rparr>,
               if is_truthy (get_prop sb ''id'') then n else Suc n))))) = Inr (b, n')"
    by (simp add: import_block_def)
  then obtain i ti bs tn where
    i: "ToString env (or_else (get_prop sb ''id'') (JStr (uid_at env n))) = Inr i"
    and ti: "ToString env (or_else (get_prop sb ''title'') (JStr [])) = Inr ti"
    and bs: "(case get_prop sb ''bullets'' of Some (JArr xs) \<Rightarrow> mapE (ToString env) xs | _ \<Rightarrow> Inr [[]])
         = Inr bs"
    and tn: "ToNumber env (nullish_else (get_prop sb ''t'') (JNum (Fin 0.3))) = Inr tn"
    and b: "b = \<lparr> blk_id = i, blk_title = ti, blk_bullets = bs,
                 blk_t = clamp tn (Fin 0.08) (Fin 0.92) \<rparr>"
    by (blast dest!: bindE_InrD)
  have g1: "ToString env (or_else (get_prop sb ''title'') (JStr [])) = Inr (blk_title b)"
    using ti b by simp
  have g2: "(case get_prop sb ''bullets'' of Some (JArr xs) \<Rightarrow> mapE (ToString env) xs | _ \<Rightarrow> Inr [[]])
         = Inr (blk_bullets b)"
    using bs b by simp
  have g3: "\<exists>tn. ToNumber env (nullish_else (get_prop sb ''t'') (JNum (Fin 0.3))) = Inr tn
             \<and> blk_t b = clamp tn (Fin 0.08) (Fin 0.92)"
    using tn b by simp
  have g4: "\<exists>k. ToString env (or_else (get_prop sb ''id'') (JStr (uid_at env k))) = Inr (blk_id b)"
    using i b by auto
  have g5: "blk_id b = s" if "get_prop sb ''id'' = Some (JStr s)" "s \<noteq> []" for s
    using i b that by simp
  have g6: "blk_title b = t'" if "get_prop sb ''title'' = Some (JStr t')" for t'
    using ti b that by (cases "t' = []") simp_all
  have g7: "blk_bullets b = ss" if "get_prop sb ''bullets'' = Some (JArr (map JStr ss))" for ss
    using bs b that by (simp add: mapE_JStr)
  have g8: "blk_t b = clamp x (Fin 0.08) (Fin 0.92)" if "get_prop sb ''t'' = Some (JNum x)" for x
    using tn b that by simp
  from nn g1 g2 g3 g4 g5 g6 g7 g8 show ?thesis by blast
qed

lemma import_blocks_nth:
  "import_blocks env n sbs = Inr (bs, n') \<Longrightarrow>
     length bs = length sbs
     \<and> (\<forall>j<length sbs. \<exists>k k'. import_block env k (sbs ! j) = Inr (bs ! j, k'))"
proof (induction sbs arbitrary: n bs)
  case Nil
  then show ?case by simp
next
  case (Cons sb sbs)
  from Cons.prems obtain b n1 bs' where
    b: "import_block env n sb = Inr (b, n1)"
    and r: "import_blocks env n1 sbs = Inr (bs', n')"
    and bs: "bs = b # bs'"
    by (auto split: sum.splits prod.splits)
  from Cons.IH [OF r] have len: "length bs' = length sbs"
    and nth: "\<forall>j<length sbs. \<exists>k k'. import_block env k (sbs ! j) = Inr (bs' ! j, k')"
    by simp_all
  have "\<exists>k k'. import_block env k ((sb # sbs) ! j) = Inr (bs ! j, k')" if "j < length (sb # sbs)" for j
  proof (cases j)
    case 0
    with b bs show ?thesis by auto
  next
    case (Suc j')
    with that have "j' < length sbs" by simp
    with nth Suc bs show ?thesis by simp
  qed
  with len bs show ?case by simp
qed

section \<open>The six categories of an imported model\<close>

text \<open>
  C5.  Whenever the import builds a model, it becomes the live model; it has exactly six
  categories, and their
  sides are those of the default model, three upper then three lower, whatever the payload
  holds (its \<open>side\<close> members are never read).  A position beyond the payload's categories
  takes the label and the identifier of the default category there and a single default
  block (empty title, one empty bullet, \<open>t = 0.3\<close>).  A position where the payload has an
  object with a non-empty string \<open>label\<close> and a \<open>blocks\<close> array takes that label, and its
  blocks are the import of that array: as many blocks as the array has elements, in the same
  order, and the block at index \<open>j\<close> is made of element \<open>j\<close> alone.  Its title, bullets and
  \<open>t\<close> are the conversions of the element's \<open>title || ""\<close>, \<open>bullets\<close> (or one empty
  bullet) and \<open>t ?? 0.3\<close>, the last clamped to \<open>[0.08, 0.92]\<close>, and its identifier is the
  conversion of \<open>id || uid()\<close>; so a non-empty string \<open>id\<close>, a string \<open>title\<close>, an array of
  string bullets and a number \<open>t\<close> (clamped) are taken as they are.  So a payload with four
  such categories fills the first four positions, and the last two come from the defaults.
\<close>

theorem import_fixes_six_categories:
  assumes "importModel env obj = Inr m"
  shows "model (fst (fileImportJSON_onload env (Some obj) st)) = m
     \<and> length (categories m) = 6
     \<and> map cat_side (categories m) = [Top, Top, Top, Bottom, Bottom, Bottom]
     \<and> (\<forall>i. length (payloadCategories obj) \<le> i \<and> i < 6 \<longrightarrow>
          cat_label (categories m ! i) = cat_label (categories (fst (defaultModel env 0)) ! i)
          \<and> (cat_id (categories (fst (defaultModel env 0)) ! i) \<noteq> [] \<longrightarrow>
               cat_id (categories m ! i) = cat_id (categories (fst (defaultModel env 0)) ! i))
          \<and> (\<exists>k. cat_blocks (categories m ! i)
                 = [\<lparr> blk_id = uid_at env k, blk_title = [], blk_bullets = [[]], blk_t = Fin 0.3 \<rparr>]))
     \<and> (\<forall>i kvs l sbs. i < length (payloadCategories obj) \<and> i < 6
          \<and> payloadCategories obj ! i = JObj kvs
          \<and> get_prop (JObj kvs) ''label'' = Some (JStr l) \<and> l \<noteq> []
          \<and> get_prop (JObj kvs) ''blocks'' = Some (JArr sbs) \<longrightarrow>
          cat_label (categories m ! i) = l
          \<and> (\<exists>k k'. import_blocks env k sbs = Inr (cat_blocks (categories m ! i), k'))
          \<and> length (cat_blocks (categories m ! i)) = length sbs
          \<and> (\<forall>j<length sbs.
                sbs ! j \<noteq> JNull
              \<and> ToString env (or_else (get_prop (sbs ! j) ''title'') (JStr []))
                  = Inr (blk_title (cat_blocks (categories m ! i) ! j))
              \<and> (case get_prop (sbs ! j) ''bullets'' of
                    Some (JArr xs) \<Rightarrow> mapE (ToString env) xs | _ \<Rightarrow> Inr [[]])
                  = Inr (blk_bullets (cat_blocks (categories m ! i) ! j))
              \<and> (\<exists>tn. ToNumber env (nullish_else (get_prop (sbs ! j) ''t'') (JNum (Fin 0.3))) = Inr tn
                    \<and> blk_t (cat_blocks (categories m ! i) ! j) = clamp tn (Fin 0.08) (Fin 0.92))
              \<and> (\<exists>k. ToString env (or_else (get_prop (sbs ! j) ''id'') (JStr (uid_at env k)))
                    = Inr (blk_id (cat_blocks (categories m ! i) ! j)))
              \<and> (\<forall>s. get_prop (sbs ! j) ''id'' = Some (JStr s) \<and> s \<noteq> [] \<longrightarrow>
                    blk_id (cat_blocks (categories m ! i) ! j) = s)
              \<and> (\<forall>ti. get_prop (sbs ! j) ''title'' = Some (JStr ti) \<longrightarrow>
                    blk_title (cat_blocks (categories m ! i) ! j) = ti)
              \<and> (\<forall>ss. get_prop (sbs ! j) ''bullets'' = Some (JArr (map JStr ss)) \<longrightarrow>
                    blk_bullets (cat_blocks (categories m ! i) ! j) = ss)
              \<and> (\<forall>x. get_prop (sbs ! j) ''t'' = Some (JNum x) \<longrightarrow>
                    blk_t (cat_blocks (categories m ! i) ! j) = clamp x (Fin 0.08) (Fin 0.92))))"
proof -
  let ?def = "categories (fst (defaultModel env 0))"
  let ?cats = "payloadCategories obj"
  from importModel_categories [OF assms] obtain n' where
    ic: "import_cats env 12 ?cats 0 ?def = Inr (categories m, n')" by blast
  have sides: "map cat_side (categories m) = [Top, Top, Top, Bottom, Bottom, Bottom]"
    using import_cats_sides [OF ic] by (simp add: default_sides)
  then have "length (map cat_side (categories m)) = 6" by simp
  then have len: "length (categories m) = 6" by simp
  have dlen: "length ?def = 6" by (simp add: defaultModel_def)
  have nth: "\<exists>k k'. import_category env k (?def ! i) (cat_at ?cats i) = Inr (categories m ! i, k')"
    if "i < 6" for i
    using import_cats_nth [OF ic, of i] that dlen by simp
  have absent: "cat_label (categories m ! i) = cat_label (?def ! i)
          \<and> (cat_id (?def ! i) \<noteq> [] \<longrightarrow> cat_id (categories m ! i) = cat_id (?def ! i))
          \<and> (\<exists>k. cat_blocks (categories m ! i)
                 = [\<lparr> blk_id = uid_at env k, blk_title = [], blk_bullets = [[]], blk_t = Fin 0.3 \<rparr>])"
    if "length ?cats \<le> i" "i < 6" for i
  proof -
    from nth [OF that(2)] cat_at_beyond [OF that(1)] obtain k k' where
      "import_category env k (?def ! i) (JObj []) = Inr (categories m ! i, k')" by auto
    from import_category_absent [OF this] show ?thesis by blast
  qed
  have present: "cat_label (categories m ! i) = l
          \<and> (\<exists>k k'. import_blocks env k sbs = Inr (cat_blocks (categories m ! i), k'))
          \<and> length (cat_blocks (categories m ! i)) = length sbs
          \<and> (\<forall>j<length sbs.
                sbs ! j \<noteq> JNull
              \<and> ToString env (or_else (get_prop (sbs ! j) ''title'') (JStr []))
                  = Inr (blk_title (cat_blocks (categories m ! i) ! j))
              \<and> (case get_prop (sbs ! j) ''bullets'' of
                    Some (JArr xs) \<Rightarrow> mapE (ToString env) xs | _ \<Rightarrow> Inr [[]])
                  = Inr (blk_bullets (cat_blocks (categories m ! i) ! j))
              \<and> (\<exists>tn. ToNumber env (nullish_else (get_prop (sbs ! j) ''t'') (JNum (Fin 0.3))) = Inr tn
                    \<and> blk_t (cat_blocks (categories m ! i) ! j) = clamp tn (Fin 0.08) (Fin 0.92))
              \<and> (\<exists>k. ToString env (or_else (get_prop (sbs ! j) ''id'') (JStr (uid_at env k)))
                    = Inr (blk_id (cat_blocks (categories m ! i) ! j)))
              \<and> (\<forall>s. get_prop (sbs ! j) ''id'' = Some (JStr s) \<and> s \<noteq> [] \<longrightarrow>
                    blk_id (cat_blocks (categories m ! i) ! j) = s)
              \<and> (\<forall>ti. get_prop (sbs ! j) ''title'' = Some (JStr ti) \<longrightarrow>
                    blk_title (cat_blocks (categories m ! i) ! j) = ti)
              \<and> (\<forall>ss. get_prop (sbs ! j) ''bullets'' = Some (JArr (map JStr ss)) \<longrightarrow>
                    blk_bullets (cat_blocks (categories m ! i) ! j) = ss)
              \<and> (\<forall>x. get_prop (sbs ! j) ''t'' = Some (JNum x) \<longrightarrow>
                    blk_t (cat_blocks (categories m ! i) ! j) = clamp x (Fin 0.08) (Fin 0.92)))"
    if "i < length ?cats" "i < 6" "?cats ! i = JObj kvs"
      "get_prop (JObj kvs) ''label'' = Some (JStr l)" "l \<noteq> []"
      "get_prop (JObj kvs) ''blocks'' = Some (JArr sbs)" for i kvs l sbs
  proof -
    from nth [OF that(2)] cat_at_object [OF that(1,3)] obtain k k' where
      "import_category env k (?def ! i) (JObj kvs) = Inr (categories m ! i, k')" by auto
    from import_category_present [OF this that(4,5,6)]
    have lab: "cat_label (categories m ! i) = l"
      and "\<exists>k. import_blocks env k sbs = Inr (cat_blocks (categories m ! i), k')"
      by blast+
    then obtain k1 where ib: "import_blocks env k1 sbs = Inr (cat_blocks (categories m ! i), k')"
      by blast
    from import_blocks_nth [OF ib]
    have bl: "length (cat_blocks (categories m ! i)) = length sbs"
      and bn: "\<forall>j<length sbs. \<exists>k k'. import_block env k (sbs ! j)
                  = Inr (cat_blocks (categories m ! i) ! j, k')"
      by simp_all
    from lab ib bl bn show ?thesis
      by (intro conjI allI impI) (blast dest: import_block_taken)+
  qed
  have live: "model (fst (fileImportJSON_onload env (Some obj) st)) = m"
    using assms by (simp add: fileImportJSON_onload_def)
  from live len sides absent present show ?thesis by blast
qed

section \<open>An import of four categories\<close>

theorem import_fixes_six_categories_witness:
  "importModel exampleEnv examplePayload = Inr (model exampleEditor)
   \<and> length (payloadCategories examplePayload) = 4
   \<and> length (categories (model exampleEditor)) = 6
   \<and> map cat_side (categories (model exampleEditor)) = [Top, Top, Top, Bottom, Bottom, Bottom]
   \<and> cat_label (categories (model exampleEditor) ! 1) = ''Process''
   \<and> length (cat_blocks (categories (model exampleEditor) ! 1)) = 2
   \<and> blk_id (cat_blocks (categories (model exampleEditor) ! 1) ! 0) = ''p1''
   \<and> blk_t (cat_blocks (categories (model exampleEditor) ! 1) ! 0) = Fin 0.92
   \<and> blk_t (cat_blocks (categories (model exampleEditor) ! 1) ! 1) = Fin 0.08
   \<and> cat_label (categories (model exampleEditor) ! 4) = ''Measurement''
   \<and> map cat_label (categories (model exampleEditor))
       = [''Staff'', ''Process'', ''Tools'', ''Supplies'', ''Measurement'', ''Environment'']
   \<and> map cat_blocks (categories (model exampleEditor))
       = [[\<lparr> blk_id = ''b'', blk_title = [], blk_bullets = [[]], blk_t = Fin 0.4 \<rparr>],
          [\<lparr> blk_id = ''p1'', blk_title = [], blk_bullets = [[]], blk_t = Fin 0.92 \<rparr>,
           \<lparr> blk_id = ''p2'', blk_title = [], blk_bullets = [[]], blk_t = Fin 0.08 \<rparr>],
          [\<lparr> blk_id = ''t1'', blk_title = ''Old'', blk_bullets = [[]], blk_t = Fin 0.3 \<rparr>],
          [\<lparr> blk_id = ''s1'', blk_title = [], blk_bullets = [''late''], blk_t = Fin 0.3 \<rparr>],
          [\<lparr> blk_id = ''u12'', blk_title = [], blk_bullets = [[]], blk_t = Fin 0.3 \<rparr>],
          [\<lparr> blk_id = ''u13'', blk_title = [], blk_bullets = [[]], blk_t = Fin 0.3 \<rparr>]]"
proof -
  let ?kvs = "[(''label'', JStr ''Process''),
              (''blocks'', JArr [JObj [(''id'', JStr ''p1''), (''t'', JNum (Fin 5))],
                                JObj [(''id'', JStr ''p2''), (''t'', JNum (Fin (- 5)))]])]"
  let ?sbs = "[JObj [(''id'', JStr ''p1''), (''t'', JNum (Fin 5))],
               JObj [(''id'', JStr ''p2''), (''t'', JNum (Fin (- 5)))]]"
  let ?B = "cat_blocks (categories (model exampleEditor) ! 1)"
  have h: "importModel exampleEnv examplePayload = Inr (model exampleEditor)"
    by (simp add: exampleEditor_def examplePayload_def rebuildBones_def eval_import eval_model)
  note r = import_fixes_six_categories [OF h]
  have l: "length (payloadCategories examplePayload) = 4"
    by (simp add: payloadCategories_def examplePayload_def)
  have p1: "payloadCategories examplePayload ! 1 = JObj ?kvs"
    by (simp add: payloadCategories_def examplePayload_def)
  have g: "get_prop (JObj ?kvs) ''label'' = Some (JStr ''Process'')"
    "get_prop (JObj ?kvs) ''blocks'' = Some (JArr ?sbs)"
    by simp_all
  from r have c1: "length (categories (model exampleEditor)) = 6"
    and c2: "map cat_side (categories (model exampleEditor)) = [Top, Top, Top, Bottom, Bottom, Bottom]"
    by blast+
  from r have "length (payloadCategories examplePayload) \<le> 4 \<and> (4::nat) < 6 \<longrightarrow>
      cat_label (categories (model exampleEditor) ! 4)
        = cat_label (categories (fst (defaultModel exampleEnv 0)) ! 4)"
    by blast
  with l have c3: "cat_label (categories (model exampleEditor) ! 4) = ''Measurement''"
    by (simp add: defaultModel_def defaultCategory_def)
  from r have "(1::nat) < length (payloadCategories examplePayload) \<and> (1::nat) < 6
          \<and> payloadCategories examplePayload ! 1 = JObj ?kvs
          \<and> get_prop (JObj ?kvs) ''label'' = Some (JStr ''Process'') \<and> ''Process'' \<noteq> []
          \<and> get_prop (JObj ?kvs) ''blocks'' = Some (JArr ?sbs) \<longrightarrow>
          cat_label (categories (model exampleEditor) ! 1) = ''Process''
          \<and> length ?B = length ?sbs
          \<and> (\<forall>j<length ?sbs.
                (\<forall>s. get_prop (?sbs ! j) ''id'' = Some (JStr s) \<and> s \<noteq> [] \<longrightarrow> blk_id (?B ! j) = s)
              \<and> (\<forall>x. get_prop (?sbs ! j) ''t'' = Some (JNum x) \<longrightarrow>
                    blk_t (?B ! j) = clamp x (Fin 0.08) (Fin 0.92)))"
    by blast
  with l p1 g have c4: "cat_label (categories (model exampleEditor) ! 1) = ''Process''"
    and c5: "length ?B = 2"
    and c6: "\<forall>j<2. (\<forall>s. get_prop (?sbs ! j) ''id'' = Some (JStr s) \<and> s \<noteq> [] \<longrightarrow> blk_id (?B ! j) = s)
              \<and> (\<forall>x. get_prop (?sbs ! j) ''t'' = Some (JNum x) \<longrightarrow>
                    blk_t (?B ! j) = clamp x (Fin 0.08) (Fin 0.92))"
    by simp_all
  have j0: "(0::nat) < 2" and j1: "(1::nat) < 2" by simp_all
  note b0 = c6 [rule_format, OF j0]
  note b1 = c6 [rule_format, OF j1]
  from b0 have "get_prop (?sbs ! 0) ''id'' = Some (JStr ''p1'') \<and> ''p1'' \<noteq> [] \<longrightarrow> blk_id (?B ! 0) = ''p1''"
    by blast
  then have c7: "blk_id (?B ! 0) = ''p1''" by simp
  from b0 have "get_prop (?sbs ! 0) ''t'' = Some (JNum (Fin 5)) \<longrightarrow>
      blk_t (?B ! 0) = clamp (Fin 5) (Fin 0.08) (Fin 0.92)"
    by blast
  then have c8: "blk_t (?B ! 0) = Fin 0.92" by (simp add: clamp_Fin)
  from b1 have "get_prop (?sbs ! 1) ''t'' = Some (JNum (Fin (- 5))) \<longrightarrow>
      blk_t (?B ! 1) = clamp (Fin (- 5)) (Fin 0.08) (Fin 0.92)"
    by blast
  then have c9: "blk_t (?B ! 1) = Fin 0.08" by (simp add: clamp_Fin)
  have e1: "map cat_label (categories (model exampleEditor))
       = [''Staff'', ''Process'', ''Tools'', ''Supplies'', ''Measurement'', ''Environment'']"
    by (simp add: exampleEditor_categories)
  have e2: "map cat_blocks (categories (model exampleEditor))
       = [[\<lparr> blk_id = ''b'', blk_title = [], blk_bullets = [[]], blk_t = Fin 0.4 \<rparr>],
          [\<lparr> blk_id = ''p1'', blk_title = [], blk_bullets = [[]], blk_t = Fin 0.92 \<rparr>,
           \<lparr> blk_id = ''p2'', blk_title = [], blk_bullets = [[]], blk_t = Fin 0.08 \<rparr>],
          [\<lparr> blk_id = ''t1'', blk_title = ''Old'', blk_bullets = [[]], blk_t = Fin 0.3 \<rparr>],
          [\<lparr> blk_id = ''s1'', blk_title = [], blk_bullets = [''late''], blk_t = Fin 0.3 \<rparr>],
          [\<lparr> blk_id = ''u12'', blk_title = [], blk_bullets = [[]], blk_t = Fin 0.3 \<rparr>],
          [\<lparr> blk_id = ''u13'', blk_title = [], blk_bullets = [[]], blk_t = Fin 0.3 \<rparr>]]"
    by (simp add: exampleEditor_categories)
  from h l c1 c2 c4 c5 c7 c8 c9 c3 e1 e2 show ?thesis by blast
qed

section \<open>What the import rejects\<close>






lemma isl_bindE_cont: "(\<And>a. isl (f a)) \<Longrightarrow> isl (bindE x f)"
  by (cases x) (simp_all add: bindE_def)









section \<open>Deleting, adding and the invariants\<close>

lemma list_all_update: "list_all P xs \<Longrightarrow> P y \<Longrightarrow> list_all P (xs[i := y])"
  by (induction xs arbitrary: i) (auto split: nat.splits)

lemma list_all_update_first:
  "list_all P xs \<Longrightarrow> (\<And>x. P x \<Longrightarrow> P (f x)) \<Longrightarrow> list_all P (update_first Q f xs)"
  by (induction xs) auto

lemma list_all_nth: "list_all P xs \<Longrightarrow> i < length xs \<Longrightarrow> P (xs ! i)"
  by (simp add: list_all_length)

lemma delBullet_blocks:
  "everyCategoryHasBlock (model st) \<Longrightarrow> everyCategoryHasBlock (model (delBullet_click ci bi i st))"
  by (auto simp: everyCategoryHasBlock_def delBullet_click_def Let_def
      intro!: list_all_update dest: list_all_nth)

lemma delBullet_bullets:
  "everyBlockHasBullet (model st) \<Longrightarrow> everyBlockHasBullet (model (delBullet_click ci bi i st))"
  by (auto simp: everyBlockHasBullet_def delBullet_click_def Let_def
      intro!: list_all_update dest: list_all_nth)

lemma addHeading_blocks:
  "everyCategoryHasBlock (model st) \<Longrightarrow> everyCategoryHasBlock (model (btnAddHeading_click env st))"
  by (auto simp: everyCategoryHasBlock_def btnAddHeading_click_def Let_def select_def
      intro!: list_all_update_first split: option.splits)

lemma addHeading_bullets:
  "everyBlockHasBullet (model st) \<Longrightarrow> everyBlockHasBullet (model (btnAddHeading_click env st))"
  by (auto simp: everyBlockHasBullet_def btnAddHeading_click_def Let_def select_def newBulletText_def
      intro!: list_all_update_first split: option.splits)

lemma addBullet_blocks:
  "everyCategoryHasBlock (model st) \<Longrightarrow> everyCategoryHasBlock (model (btnAddBullet_click st))"
proof -
  have "update_first Q f xs \<noteq> []" if "xs \<noteq> []" for Q and f :: "block \<Rightarrow> block" and xs
    using that by (cases xs) auto
  then show "everyCategoryHasBlock (model st) \<Longrightarrow> everyCategoryHasBlock (model (btnAddBullet_click st))"
    by (auto simp: everyCategoryHasBlock_def btnAddBullet_click_def Let_def
      intro!: list_all_update_first split: option.splits)
qed

lemma addBullet_bullets:
  "everyBlockHasBullet (model st) \<Longrightarrow> everyBlockHasBullet (model (btnAddBullet_click st))"
  by (auto simp: everyBlockHasBullet_def btnAddBullet_click_def Let_def
      intro!: list_all_update_first split: option.splits)

lemma delBlock_bullets:
  "everyBlockHasBullet (model st) \<Longrightarrow> everyBlockHasBullet (model (delBlock_click ci bi ok st))"
proof -
  assume a: "everyBlockHasBullet (model st)"
  have f: "list_all P (filter Q xs)" if "list_all P xs" for P Q and xs :: "block list"
    using that by (induction xs) auto
  show ?thesis
    using a
    by (auto simp: everyBlockHasBullet_def delBlock_click_def Let_def
        intro!: list_all_update f dest: list_all_nth)
qed

lemma delBullet_last:
  assumes "ci < length (categories (model st))"
    and "bi < length (cat_blocks (categories (model st) ! ci))"
    and "blk_bullets (cat_blocks (categories (model st) ! ci) ! bi) = [x]"
  shows "blk_bullets (cat_blocks (categories (model (delBullet_click ci bi 0 st)) ! ci) ! bi) = [[]]"
  using assms by (simp add: delBullet_click_def Let_def splice1_def)

lemma import_block_no_bullets:
  assumes "import_block env n sb = Inr (b, n')"
    and "\<And>xs. get_prop sb ''bullets'' \<noteq> Some (JArr xs)"
  shows "blk_bullets b = [[]]"
proof -
  have "(case get_prop sb ''bullets'' of Some (JArr xs) \<Rightarrow> mapE (ToString env) xs | _ \<Rightarrow> Inr [[]])
          = Inr [[]]"
    using assms(2) by (auto split: option.splits json.splits)
  with assms(1) show ?thesis
    by (auto simp: import_block_def dest!: bindE_InrD split: if_splits)
qed


text \<open>
  C8 (as amended).  Deleting a bullet, adding a heading and adding a bullet preserve both
  invariants: every category keeps at least one block and every block at least one bullet
  string, and deleting a block's only bullet leaves one empty bullet.  Deleting a heading
  preserves the invariant of the bullets; it does not promise a block in every category.
  An import gives a category whose payload entry has no \<open>blocks\<close> array a single block
  with one empty bullet, and gives a block whose entry has no \<open>bullets\<close> array one empty
  bullet.
\<close>

theorem invariants_preserved:
  "(everyCategoryHasBlock (model st) \<longrightarrow>
       everyCategoryHasBlock (model (delBullet_click ci bi i st))
     \<and> everyCategoryHasBlock (model (btnAddHeading_click env st))
     \<and> everyCategoryHasBlock (model (btnAddBullet_click st)))
   \<and> (everyBlockHasBullet (model st) \<longrightarrow>
       everyBlockHasBullet (model (delBullet_click ci bi i st))
     \<and> everyBlockHasBullet (model (btnAddHeading_click env st))
     \<and> everyBlockHasBullet (model (btnAddBullet_click st))
     \<and> everyBlockHasBullet (model (delBlock_click ci bi ok st)))
   \<and> (ci < length (categories (model st))
      \<and> bi < length (cat_blocks (categories (model st) ! ci))
      \<and> blk_bullets (cat_blocks (categories (model st) ! ci) ! bi) = [x] \<longrightarrow>
       blk_bullets (cat_blocks (categories (model (delBullet_click ci bi 0 st)) ! ci) ! bi) = [[]])
   \<and> (importModel env obj = Inr m \<and> k < 6
      \<and> (\<forall>sbs. get_prop (cat_at (payloadCategories obj) k) ''blocks'' \<noteq> Some (JArr sbs)) \<longrightarrow>
       length (cat_blocks (categories m ! k)) = 1
     \<and> blk_bullets (hd (cat_blocks (categories m ! k))) = [[]])
   \<and> (import_block env n sb = Inr (b, n')
      \<and> (\<forall>xs. get_prop sb ''bullets'' \<noteq> Some (JArr xs)) \<longrightarrow> blk_bullets b = [[]])"
proof -
  have imp: "length (cat_blocks (categories m ! k)) = 1
     \<and> blk_bullets (hd (cat_blocks (categories m ! k))) = [[]]"
    if h: "importModel env obj = Inr m" "k < 6"
      "\<forall>sbs. get_prop (cat_at (payloadCategories obj) k) ''blocks'' \<noteq> Some (JArr sbs)"
  proof -
    from importModel_categories [OF h(1)] obtain n' where
      ic: "import_cats env 12 (payloadCategories obj) 0 (categories (fst (defaultModel env 0)))
             = Inr (categories m, n')" by blast
    have "length (categories (fst (defaultModel env 0))) = 6" by (simp add: defaultModel_def)
    with import_cats_nth [OF ic, of k] h(2) obtain j j' where
      "import_category env j (categories (fst (defaultModel env 0)) ! k)
         (cat_at (payloadCategories obj) k) = Inr (categories m ! k, j')" by auto
    from import_category_no_blocks [OF this] h(3) show ?thesis by auto
  qed
  have p1: "everyCategoryHasBlock (model st) \<longrightarrow>
       everyCategoryHasBlock (model (delBullet_click ci bi i st))
     \<and> everyCategoryHasBlock (model (btnAddHeading_click env st))
     \<and> everyCategoryHasBlock (model (btnAddBullet_click st))"
    by (simp add: delBullet_blocks addHeading_blocks addBullet_blocks)
  have p2: "everyBlockHasBullet (model st) \<longrightarrow>
       everyBlockHasBullet (model (delBullet_click ci bi i st))
     \<and> everyBlockHasBullet (model (btnAddHeading_click env st))
     \<and> everyBlockHasBullet (model (btnAddBullet_click st))
     \<and> everyBlockHasBullet (model (delBlock_click ci bi ok st))"
    by (simp add: delBullet_bullets addHeading_bullets addBullet_bullets delBlock_bullets)
  have p3: "ci < length (categories (model st))
      \<and> bi < length (cat_blocks (categories (model st) ! ci))
      \<and> blk_bullets (cat_blocks (categories (model st) ! ci) ! bi) = [x] \<longrightarrow>
       blk_bullets (cat_blocks (categories (model (delBullet_click ci bi 0 st)) ! ci) ! bi) = [[]]"
    using delBullet_last [of ci st bi x] by blast
  have p4: "importModel env obj = Inr m \<and> k < 6
      \<and> (\<forall>sbs. get_prop (cat_at (payloadCategories obj) k) ''blocks'' \<noteq> Some (JArr sbs)) \<longrightarrow>
       length (cat_blocks (categories m ! k)) = 1
     \<and> blk_bullets (hd (cat_blocks (categories m ! k))) = [[]]"
    using imp by blast
  have p5: "import_block env n sb = Inr (b, n')
      \<and> (\<forall>xs. get_prop sb ''bullets'' \<noteq> Some (JArr xs)) \<longrightarrow> blk_bullets b = [[]]"
    using import_block_no_bullets [of env n sb b n'] by blast
  from p1 p2 p3 p4 p5 show ?thesis by (intro conjI)
qed

text \<open>
  Deleting the only heading of a category leaves the category without a block: the handler
  filters the blocks and adds nothing.
\<close>

theorem delete_last_heading_counterexample:
  "everyCategoryHasBlock (model exampleEditor)
   \<and> cat_blocks (categories (model (delBlock_click 0 0 True exampleEditor)) ! 0) = []
   \<and> \<not> everyCategoryHasBlock (model (delBlock_click 0 0 True exampleEditor))"
  by (simp add: everyCategoryHasBlock_def delBlock_click_def Let_def exampleEditor_categories)

theorem invariants_preserved_witness:
  "everyCategoryHasBlock (model exampleEditor) \<and> everyBlockHasBullet (model exampleEditor)
   \<and> everyCategoryHasBlock (model (delBullet_click 3 0 0 exampleEditor))
   \<and> everyBlockHasBullet (model (delBlock_click 3 0 True exampleEditor))
   \<and> blk_bullets (cat_blocks (categories (model exampleEditor) ! 3) ! 0) = [''late'']
   \<and> blk_bullets (cat_blocks (categories (model (delBullet_click 3 0 0 exampleEditor)) ! 3) ! 0) = [[]]
   \<and> importModel exampleEnv examplePayload = Inr (model exampleEditor)
   \<and> length (cat_blocks (categories (model exampleEditor) ! 4)) = 1
   \<and> import_block exampleEnv 0 (JObj [(''id'', JStr ''s'')])
       = Inr (\<lparr> blk_id = ''s'', blk_title = [], blk_bullets = [[]], blk_t = Fin 0.3 \<rparr>, 0)"
proof -
  note r = invariants_preserved [where st = exampleEditor and ci = 3 and bi = 0 and i = 0
      and env = exampleEnv and ok = True and x = "''late''" and obj = examplePayload
      and m = "model exampleEditor" and k = 4 and n = 0 and sb = "JObj [(''id'', JStr ''s'')]"
      and b = "\<lparr> blk_id = ''s'', blk_title = [], blk_bullets = [[]], blk_t = Fin 0.3 \<rparr>" and n' = 0]
  have h1: "everyCategoryHasBlock (model exampleEditor)"
    by (simp add: everyCategoryHasBlock_def exampleEditor_categories)
  have h2: "everyBlockHasBullet (model exampleEditor)"
    by (simp add: everyBlockHasBullet_def exampleEditor_categories)
  have h3: "blk_bullets (cat_blocks (categories (model exampleEditor) ! 3) ! 0) = [''late'']"
    "(3::nat) < length (categories (model exampleEditor))"
    "(0::nat) < length (cat_blocks (categories (model exampleEditor) ! 3))"
    by (simp_all add: exampleEditor_categories)
  have h4: "importModel exampleEnv examplePayload = Inr (model exampleEditor)"
    by (simp add: exampleEditor_def examplePayload_def rebuildBones_def eval_import eval_model)
  have h5: "\<forall>sbs. get_prop (cat_at (payloadCategories examplePayload) 4) ''blocks'' \<noteq> Some (JArr sbs)"
    by (simp add: payloadCategories_def examplePayload_def cat_at_def)
  have h6: "import_block exampleEnv 0 (JObj [(''id'', JStr ''s'')])
       = Inr (\<lparr> blk_id = ''s'', blk_title = [], blk_bullets = [[]], blk_t = Fin 0.3 \<rparr>, 0)"
    by (simp add: import_block_def bindE_def clamp_Fin)
  from r h1 have c1: "everyCategoryHasBlock (model (delBullet_click 3 0 0 exampleEditor))" by blast
  from r h2 have c2: "everyBlockHasBullet (model (delBlock_click 3 0 True exampleEditor))" by blast
  from r h3 have c3:
    "blk_bullets (cat_blocks (categories (model (delBullet_click 3 0 0 exampleEditor)) ! 3) ! 0) = [[]]"
    by blast
  from r h4 h5 have c4: "length (cat_blocks (categories (model exampleEditor) ! 4)) = 1" by simp
  from h1 h2 c1 c2 h3(1) c3 h4 c4 h6 show ?thesis by blast
qed

section \<open>A position that is not a number\<close>

text \<open>
  C6.  The import of a block whose \<open>t\<close> is the string \<open>abc\<close>, or an object, is not rejected
  and shows no notice, and the \<open>t\<close> it stores is NaN: \<open>Number\<close> gives NaN and \<open>clamp\<close>,
  being \<open>Math.max(a, Math.min(b, x))\<close>, returns NaN for NaN.
\<close>

theorem import_nan_t_stored:
  "snd (fileImportJSON_onload exampleEnv (Some nanPayload) (initialEditor exampleEnv)) = False
   \<and> map blk_t (cat_blocks (hd (categories (model
        (fst (fileImportJSON_onload exampleEnv (Some nanPayload) (initialEditor exampleEnv)))))))
       = [NaN]
   \<and> snd (fileImportJSON_onload exampleEnv
        (Some (JObj [(''categories'', JArr [JObj [(''blocks'', JArr [JObj [(''t'', JObj [])]])]])]))
        (initialEditor exampleEnv)) = False
   \<and> map blk_t (cat_blocks (hd (categories (model
        (fst (fileImportJSON_onload exampleEnv
          (Some (JObj [(''categories'', JArr [JObj [(''blocks'', JArr [JObj [(''t'', JObj [])]])]])]))
          (initialEditor exampleEnv)))))))
       = [NaN]"
  by (simp add: nanPayload_def eval_import eval_model)

text \<open>
  C3.  The writes clamp every number: \<open>-5\<close> is stored as 0.08, 5 and \<open>Infinity\<close> as 0.92,
  while \<open>projectT\<close> itself returns values outside the interval, such as 2.  But NaN passes
  through \<open>clamp\<close>: the imported block above keeps \<open>t = NaN\<close>, and a heading added next to
  it gets \<open>clamp(NaN + 0.10)\<close>, which is NaN as well.
\<close>

theorem nan_t_survives_writes:
  "clamp (Fin (- 5)) (Fin 0.08) (Fin 0.92) = Fin 0.08
   \<and> clamp (Fin 5) (Fin 0.08) (Fin 0.92) = Fin 0.92
   \<and> clamp PInf (Fin 0.08) (Fin 0.92) = Fin 0.92
   \<and> clamp NaN (Fin 0.08) (Fin 0.92) = NaN
   \<and> projectT \<lparr> pt_x = Fin (- 120), pt_y = Fin (- 220) \<rparr>
        (spinePoint (finBone 300 360 90 70 Top)) (edgePoint (finBone 300 360 90 70 Top)) = Fin 2
   \<and> map blk_t (cat_blocks (hd (categories (model nanEditor)))) = [NaN]
   \<and> map blk_t (cat_blocks (hd (categories (model
        (btnAddHeading_click exampleEnv (select ''u0'' ''b'' nanEditor)))))) = [NaN, NaN]"
  by (simp add: clamp_cases nanEditor_categories btnAddHeading_click_def select_def Let_def
      projectT_def denom_def spinePoint_def edgePoint_def finBone_def)

end
